theory Spec2Isabelle
  imports Main "HOL-Library.Sublist" "HOL-Library.Monad_Syntax" "HOL-Library.AList"
begin

section \<open>Strings of the runtime\<close>

text \<open>
  A JavaScript string is a sequence of UTF-16 code units. The pipeline never does
  arithmetic on a code unit, it only compares them, so a code unit is modelled as a
  natural number and a string as a list of them: every statement proved for all lists
  of naturals holds for all lists of 16-bit values. \<open>ustr\<close> embeds an ASCII literal of
  the source.
\<close>

type_synonym ustring = "nat list"

definition ustr :: "string \<Rightarrow> ustring" where
  "ustr s = map of_char s"

text \<open>\<open>String.prototype.includes(searchString)\<close>: is the argument a contiguous part.\<close>

fun str_includes :: "ustring \<Rightarrow> ustring \<Rightarrow> bool" where
  "str_includes [] sub = (sub = [])"
| "str_includes (c # cs) sub = (prefix sub (c # cs) \<or> str_includes cs sub)"

text \<open>\<open>String.prototype.indexOf(searchString)\<close>: the first position of the argument, or -1.\<close>

fun indexOf :: "ustring \<Rightarrow> ustring \<Rightarrow> int" where
  "indexOf [] sub = (if sub = [] then 0 else - 1)"
| "indexOf (c # cs) sub =
     (if prefix sub (c # cs) then 0
      else (let r = indexOf cs sub in if r < 0 then - 1 else r + 1))"

text \<open>
  \<open>String.prototype.slice(start, end)\<close>: a negative index counts from the end, both
  indices are clamped to the string, and an empty range gives the empty string.
\<close>

definition slice :: "ustring \<Rightarrow> int \<Rightarrow> int \<Rightarrow> ustring" where
  "slice s start endIndex =
     (let len = int (length s);
          from = (if start < 0 then max (len + start) 0 else min start len);
          to = (if endIndex < 0 then max (len + endIndex) 0 else min endIndex len)
      in take (nat (max (to - from) 0)) (drop (nat from) s))"

text \<open>
  \<open>String.prototype.substring(start, end)\<close>: both indices are clamped to the string and
  swapped when out of order. \<open>substring_from\<close> is the call with one argument, whose
  end is the length.
\<close>

definition substring :: "ustring \<Rightarrow> int \<Rightarrow> int \<Rightarrow> ustring" where
  "substring s start endIndex =
     (let len = int (length s);
          finalStart = min (max start 0) len;
          finalEnd = min (max endIndex 0) len;
          from = min finalStart finalEnd;
          to = max finalStart finalEnd
      in take (nat (to - from)) (drop (nat from) s))"

definition substring_from :: "ustring \<Rightarrow> int \<Rightarrow> ustring" where
  "substring_from s start = substring s start (int (length s))"

text \<open>
  The white space of the runtime (WhiteSpace and LineTerminator of ECMAScript), which
  is what \<open>trim\<close> removes at both ends and what the class \<open>\s\<close> of a regular
  expression matches.
\<close>

definition is_whitespace :: "nat \<Rightarrow> bool" where
  "is_whitespace c \<longleftrightarrow>
     c \<in> set [0x09, 0x0A, 0x0B, 0x0C, 0x0D, 0x20, 0xA0, 0x1680, 0x2028, 0x2029,
               0x202F, 0x205F, 0x3000, 0xFEFF]
     \<or> (0x2000 \<le> c \<and> c \<le> 0x200A)"

definition trim :: "ustring \<Rightarrow> ustring" where
  "trim s = rev (dropWhile is_whitespace (rev (dropWhile is_whitespace s)))"

text \<open>\<open>.replace(/\s/g, "")\<close>\<close>

definition replace_whitespace :: "ustring \<Rightarrow> ustring" where
  "replace_whitespace s = filter (\<lambda>c. \<not> is_whitespace c) s"

section \<open>Text sanitizer\<close>

text \<open>
  Every text read from the document goes through
  \<open>.replace(/[\u0000-\u001F\u007F-\u009F-\u200B]/g, "")\<close>. The expression has no
  \<open>u\<close> flag, so it matches single code units. Its class is read, left to right, as the
  range 0000-001F, the range 007F-009F, then (a range having just ended) the hyphen as
  a character of its own, then 200B.
\<close>

definition sanitize_class :: "nat \<Rightarrow> bool" where
  "sanitize_class c \<longleftrightarrow>
     c \<le> 0x1F \<or> (0x7F \<le> c \<and> c \<le> 0x9F) \<or> c = 0x2D \<or> c = 0x200B"

definition sanitize :: "ustring \<Rightarrow> ustring" where
  "sanitize s = filter (\<lambda>c. \<not> sanitize_class c) s"

section \<open>Category classifier\<close>

text \<open>
  \<open>String.prototype.toLowerCase\<close> follows the Unicode case tables of the runtime; the
  classifier takes it as the parameter \<open>lc\<close>. \<open>ascii_toLowerCase\<close> is what it does on
  a string of ASCII characters.
\<close>

definition ascii_toLowerCase :: "ustring \<Rightarrow> ustring" where
  "ascii_toLowerCase s = map (\<lambda>c. if 0x41 \<le> c \<and> c \<le> 0x5A then c + 0x20 else c) s"

text \<open>The enumeration and the classifier of \<open>src/index.ts\<close>.\<close>

datatype MethodCategory =
  Program | Token | Account | Transaction | Block | Epoch | Fees | Misc

fun MethodCategory_value :: "MethodCategory \<Rightarrow> string" where
  "MethodCategory_value Program = ''Program''"
| "MethodCategory_value Token = ''Token''"
| "MethodCategory_value Account = ''Account''"
| "MethodCategory_value Transaction = ''Transaction''"
| "MethodCategory_value Block = ''Block''"
| "MethodCategory_value Epoch = ''Epoch''"
| "MethodCategory_value Fees = ''Fee''"
| "MethodCategory_value Misc = ''Miscellaneous''"

definition getCategory :: "(ustring \<Rightarrow> ustring) \<Rightarrow> ustring \<Rightarrow> MethodCategory" where
  "getCategory lc methodName =
     (if str_includes (lc methodName) (ustr ''block'') then Block
      else if str_includes (lc methodName) (ustr ''epoch'') then Epoch
      else if str_includes (lc methodName) (ustr ''fee'') then Fees
      else if str_includes (lc methodName) (ustr ''transaction'') then Transaction
      else if str_includes (lc methodName) (ustr ''program'') then Program
      else if str_includes (lc methodName) (ustr ''token'') then Token
      else if str_includes (lc methodName) (ustr ''account'') then Account
      else Misc)"

text \<open>
  The enumeration and the classifier of the second variant of the pipeline, the file
  \<open>src/unnamed/part_000\<close>.
\<close>

datatype MethodCategory2 =
  Accounts2 | Transaction2 | Block2 | Inflation2 | Slot2 | Stake2 | Epoch2 | Fee2
  | Token2 | Miscellaneous2

fun MethodCategory2_value :: "MethodCategory2 \<Rightarrow> string" where
  "MethodCategory2_value Accounts2 = ''Accounts''"
| "MethodCategory2_value Transaction2 = ''Transaction''"
| "MethodCategory2_value Block2 = ''Block''"
| "MethodCategory2_value Inflation2 = ''Inflation''"
| "MethodCategory2_value Slot2 = ''Slot''"
| "MethodCategory2_value Stake2 = ''Stake''"
| "MethodCategory2_value Epoch2 = ''Epoch''"
| "MethodCategory2_value Fee2 = ''Fee''"
| "MethodCategory2_value Token2 = ''Token''"
| "MethodCategory2_value Miscellaneous2 = ''Miscellaneous''"

definition getCategory2 :: "(ustring \<Rightarrow> ustring) \<Rightarrow> ustring \<Rightarrow> MethodCategory2" where
  "getCategory2 lc m =
     (let methodName = lc m in
      if str_includes methodName (ustr ''block'') then Block2
      else if str_includes methodName (ustr ''slot'') then Slot2
      else if str_includes methodName (ustr ''epoch'') then Epoch2
      else if str_includes methodName (ustr ''stake'') then Stake2
      else if str_includes methodName (ustr ''inflation'') then Inflation2
      else if str_includes methodName (ustr ''fee'') then Fee2
      else if str_includes methodName (ustr ''token'') then Token2
      else if str_includes methodName (ustr ''transaction'') then Transaction2
      else if str_includes methodName (ustr ''account'') then Accounts2
      else Miscellaneous2)"

text \<open>
  The classifier as the specification words it: an ordered list of rules, each a
  keyword and its category, tested in order on the lowered name, with a default.
\<close>

definition first_matching_rule :: "(ustring \<times> 'c) list \<Rightarrow> 'c \<Rightarrow> ustring \<Rightarrow> 'c" where
  "first_matching_rule rules dflt lowered =
     (case find (\<lambda>(keyword, cat). str_includes lowered keyword) rules of
        None \<Rightarrow> dflt
      | Some (keyword, cat) \<Rightarrow> cat)"

definition category_rules :: "(ustring \<times> MethodCategory) list" where
  "category_rules =
     [(ustr ''block'', Block), (ustr ''epoch'', Epoch), (ustr ''fee'', Fees),
      (ustr ''transaction'', Transaction), (ustr ''program'', Program),
      (ustr ''token'', Token), (ustr ''account'', Account)]"

definition category_rules2 :: "(ustring \<times> MethodCategory2) list" where
  "category_rules2 =
     [(ustr ''block'', Block2), (ustr ''slot'', Slot2), (ustr ''epoch'', Epoch2),
      (ustr ''stake'', Stake2), (ustr ''inflation'', Inflation2), (ustr ''fee'', Fee2),
      (ustr ''token'', Token2), (ustr ''transaction'', Transaction2),
      (ustr ''account'', Accounts2)]"

section \<open>Sample payload recovery\<close>

text \<open>\<open>removeAt\<close> of the source.\<close>

definition removeAt :: "int \<Rightarrow> ustring \<Rightarrow> ustring" where
  "removeAt index s = substring s 0 index @ substring_from s (index + 1)"

text \<open>
  The candidate string of the main loop, before and after the correction for
  \<open>simulateTransaction\<close>.
\<close>

definition jsonCandidate :: "ustring \<Rightarrow> ustring" where
  "jsonCandidate sampleRequest =
     (let startIndex = indexOf sampleRequest (ustr ''{'')
      in replace_whitespace (trim (slice sampleRequest startIndex (- 1))))"

definition jsonString_of :: "ustring \<Rightarrow> ustring" where
  "jsonString_of sampleRequest =
     (let jsonString = jsonCandidate sampleRequest
      in if str_includes jsonString (ustr ''simulateTransaction'')
         then removeAt (int (length jsonString) - 4) jsonString
         else jsonString)"

text \<open>
  The recovery as the specification words it: the text from the first opening brace up
  to, but excluding, the final character, trimmed and with all white space stripped;
  and the deletion of exactly one element of a list.
\<close>

definition spec_candidate :: "ustring \<Rightarrow> ustring" where
  "spec_candidate sampleRequest =
     replace_whitespace (trim (butlast (dropWhile (\<lambda>c. c \<noteq> 0x7B) sampleRequest)))"

definition delete_at :: "nat \<Rightarrow> 'a list \<Rightarrow> 'a list" where
  "delete_at i xs = take i xs @ drop (Suc i) xs"

section \<open>The document tree\<close>

text \<open>
  The document is read through three operations of the DOM: the descendant elements
  with a given class, the descendant elements with a given tag (both in document
  order, the element itself excluded), and the text content of an element, which is
  the concatenation of the text nodes below it. Tag and class names are the ASCII
  names of the page; a tag name is the lower-case local name of the element. Class
  names are compared exactly, as in a document with a doctype, which the page is; in a
  document without one (quirks mode) the comparison ignores the case of ASCII letters,
  and the model does not cover such a document.
\<close>

datatype node =
  Element (tagName: string) (classList: "string list") (childNodes: "node list")
| Text (data: ustring)

fun descendants :: "node \<Rightarrow> node list" where
  "descendants (Element t cs ch) = concat (map (\<lambda>c. c # descendants c) ch)"
| "descendants (Text d) = []"

fun has_class :: "string \<Rightarrow> node \<Rightarrow> bool" where
  "has_class c (Element t cs ch) = (c \<in> set cs)"
| "has_class c (Text d) = False"

fun has_tag :: "string \<Rightarrow> node \<Rightarrow> bool" where
  "has_tag n (Element t cs ch) = (t = n)"
| "has_tag n (Text d) = False"

definition getElementsByClassName :: "string \<Rightarrow> node \<Rightarrow> node list" where
  "getElementsByClassName c n = filter (has_class c) (descendants n)"

definition getElementsByTagName :: "string \<Rightarrow> node \<Rightarrow> node list" where
  "getElementsByTagName t n = filter (has_tag t) (descendants n)"

fun textContent :: "node \<Rightarrow> ustring" where
  "textContent (Element t cs ch) = concat (map textContent ch)"
| "textContent (Text d) = d"

text \<open>
  \<open>collection[0]\<close> is \<open>undefined\<close> on an empty collection, and reading a property of
  \<open>undefined\<close> throws a TypeError. In the functions below a result \<open>None\<close> is that
  TypeError, thrown and not caught; \<open>item0 c \<bind> f\<close> reads \<open>f\<close> of \<open>c[0]\<close>.
\<close>

definition item0 :: "'a list \<Rightarrow> 'a option" where
  "item0 c = (case c of [] \<Rightarrow> None | x # _ \<Rightarrow> Some x)"

text \<open>A collection is an object, and every object is truthy.\<close>

definition object_is_truthy :: "'a list \<Rightarrow> bool" where
  "object_is_truthy c = True"

section \<open>Records of the pipeline\<close>

record FieldSpec =
  field_name :: ustring
  field_type :: ustring
  field_required :: bool

record MethodParam =
  param_type :: ustring
  param_required :: bool
  param_fields :: "FieldSpec list"

text \<open>
  A parsed JSON value. A number keeps the text of its literal, which determines the
  number the runtime reads; an object keeps its properties in order, each key once.
\<close>

datatype json =
  JNull | JBool bool | JNumber ustring | JString ustring | JArray "json list"
| JObject "(ustring \<times> json) list"

text \<open>
  \<open>value.params\<close>: a TypeError on \<open>null\<close>, the property of an object (\<open>undefined\<close>,
  here the inner \<open>None\<close>, when it has none), and \<open>undefined\<close> on every other value.
\<close>

fun get_params :: "json \<Rightarrow> json option option" where
  "get_params JNull = None"
| "get_params (JObject kvs) = Some (map_of kvs (ustr ''params''))"
| "get_params v = Some None"

text \<open>
  The two functions of the runtime that the pipeline is parametric in: lowering a
  string, and \<open>JSON.parse\<close>, whose result \<open>None\<close> is the SyntaxError it throws.
\<close>

record runtime =
  toLowerCase :: "ustring \<Rightarrow> ustring"
  JSON_parse :: "ustring \<Rightarrow> json option"

datatype console_line = ConsoleLog "ustring list" | ConsoleError "ustring list"

section \<open>Parameter extraction\<close>

text \<open>
  The body of the loop over the field sections, up to its test: the name, the type and
  the flag of one field. \<open>None\<close> is the TypeError of a missing name or code element.
\<close>

definition read_field :: "node \<Rightarrow> (ustring \<times> ustring \<times> bool) option" where
  "read_field fieldSection = do {
     nameElement \<leftarrow> item0 (getElementsByClassName ''ParameterName_c9Z4'' fieldSection);
     let name = sanitize (textContent nameElement);
     codeElement \<leftarrow> item0 (getElementsByTagName ''code'' fieldSection);
     let type = textContent codeElement;
     let flags = getElementsByClassName ''FlagItem_qZK_'' fieldSection;
     let required = (case flags of [] \<Rightarrow> False | flag # _ \<Rightarrow> textContent flag = ustr ''required'');
     Some (name, type, required)
   }"

text \<open>
  The loop over the field sections, inside the \<open>try\<close>. It pushes on the array
  \<open>fields\<close> and writes to the console; the last component of its result says whether
  a TypeError ended it, in which case what was pushed before stays in the array and the
  remaining field sections are not visited.
\<close>

fun fields_loop ::
  "ustring \<Rightarrow> node list \<Rightarrow> FieldSpec list \<Rightarrow> console_line list
   \<Rightarrow> FieldSpec list \<times> console_line list \<times> bool" where
  "fields_loop methodName [] fieldArray out = (fieldArray, out, False)"
| "fields_loop methodName (fieldSection # rest) fieldArray out =
     (case read_field fieldSection of
        None \<Rightarrow> (fieldArray, out, True)
      | Some (name, type, required) \<Rightarrow>
          if name = [] \<or> type = []
          then fields_loop methodName rest fieldArray
                 (out @ [ConsoleLog [ustr ''Name or type not found for method: '' @ methodName]])
          else fields_loop methodName rest
                 (fieldArray @ [\<lparr>field_name = name, field_type = type, field_required = required\<rparr>])
                 out)"

text \<open>The \<open>try\<close> statement around it, with its handler.\<close>

definition try_fields ::
  "ustring \<Rightarrow> ustring \<Rightarrow> node \<Rightarrow> FieldSpec list \<times> console_line list" where
  "try_fields methodName type param =
     (if type = ustr ''object''
      then (let fieldSections = getElementsByClassName ''Field_MIDZ'' param;
                (fieldArray, out, thrown) = fields_loop methodName fieldSections [] []
            in if thrown
               then (fieldArray, out @ [ConsoleError [ustr ''Error parsing fields for method: '' @ methodName]])
               else (fieldArray, out))
      else ([], []))"

text \<open>
  The loop over the parameters. Nothing catches a TypeError of its body, so it leaves
  the loop, and the run, at once.
\<close>

fun params_loop ::
  "ustring \<Rightarrow> node list \<Rightarrow> MethodParam list \<Rightarrow> console_line list
   \<Rightarrow> (MethodParam list \<times> console_line list) option" where
  "params_loop methodName [] params out = Some (params, out)"
| "params_loop methodName (param # rest) params out = do {
     header \<leftarrow> item0 (getElementsByClassName ''ParameterHeader_UUsJ'' param);
     codeElement \<leftarrow> item0 (getElementsByTagName ''code'' header);
     let type = sanitize (trim (textContent codeElement));
     let (fieldArray, out1) = try_fields methodName type param;
     flag \<leftarrow> item0 (getElementsByClassName ''FlagItem_qZK_'' param);
     let required = (textContent flag = ustr ''required'');
     if type = []
     then params_loop methodName rest params
            (out @ out1 @ [ConsoleLog [ustr ''Type not found for method: '' @ methodName]])
     else params_loop methodName rest
            (params @ [\<lparr>param_type = type, param_required = required, param_fields = fieldArray\<rparr>])
            (out @ out1)
   }"

section \<open>The main loop of \<open>src/index.ts\<close>\<close>

record Method =
  method_name :: ustring
  method_params :: "MethodParam list"
  method_sampleBody_params :: "json option"
  method_category :: MethodCategory
  method_deprecated :: bool

text \<open>
  The state of the loop: the array \<open>methods\<close>, the object \<open>categoryMap\<close> (its keys in
  insertion order, each once) and what was written to the console.
\<close>

record state =
  methods :: "Method list"
  categoryMap :: "(MethodCategory \<times> Method list) list"
  console :: "console_line list"

text \<open>The expressions of the loop body that read the method section.\<close>

definition methodName_of :: "node \<Rightarrow> ustring option" where
  "methodName_of methodSection = do {
     h2 \<leftarrow> item0 (getElementsByTagName ''h2'' methodSection);
     Some (sanitize (textContent h2))
   }"

definition deprecated_of :: "runtime \<Rightarrow> node \<Rightarrow> bool" where
  "deprecated_of rt methodSection =
     (case item0 (getElementsByClassName ''theme-admonition-warning'' methodSection) of
        None \<Rightarrow> False
      | Some warning \<Rightarrow> str_includes (toLowerCase rt (textContent warning)) (ustr ''deprecated''))"

definition paramsSection_of :: "node \<Rightarrow> node list option" where
  "paramsSection_of methodSection = do {
     codeParams \<leftarrow> item0 (getElementsByClassName ''CodeParams_B82f'' methodSection);
     Some (getElementsByClassName ''Parameter_p8dk'' codeParams)
   }"

definition sampleRequest_of :: "node \<Rightarrow> ustring option" where
  "sampleRequest_of methodSection = do {
     codeSnippets \<leftarrow> item0 (getElementsByClassName ''CodeSnippets_vVvq'' methodSection);
     block \<leftarrow> item0 (getElementsByClassName ''codeBlockLines_e6Vv'' codeSnippets);
     Some (sanitize (textContent block))
   }"

text \<open>The \<open>if\<close> that files a method under its category, and the push on \<open>methods\<close>.\<close>

definition add_method :: "Method \<Rightarrow> state \<Rightarrow> state" where
  "add_method method st =
     st\<lparr>categoryMap :=
          (case map_of (categoryMap st) (method_category method) of
             Some bucket \<Rightarrow>
               AList.update (method_category method) (bucket @ [method]) (categoryMap st)
           | None \<Rightarrow> categoryMap st @ [(method_category method, [method])]),
        methods := methods st @ [method]\<rparr>"

definition write_console :: "console_line list \<Rightarrow> state \<Rightarrow> state" where
  "write_console out st = st\<lparr>console := console st @ out\<rparr>"

text \<open>
  One turn of the loop over the method sections. \<open>None\<close> is a TypeError that leaves
  \<open>main\<close>; a turn that ends in \<open>continue\<close> or in the handler of the last \<open>try\<close>
  returns the state with lines added to the console only.
\<close>

definition main_loop_body :: "runtime \<Rightarrow> state \<Rightarrow> node \<Rightarrow> state option" where
  "main_loop_body rt st methodSection = do {
     methodName \<leftarrow> methodName_of methodSection;
     let category = getCategory (toLowerCase rt) methodName;
     let deprecated = deprecated_of rt methodSection;
     paramsSection \<leftarrow> paramsSection_of methodSection;
     if \<not> object_is_truthy paramsSection
     then Some (write_console
                  [ConsoleLog [ustr ''Params section not found for method: '' @ methodName]] st)
     else do {
       (params, out) \<leftarrow> params_loop methodName paramsSection [] [];
       sampleRequest \<leftarrow> sampleRequest_of methodSection;
       if sampleRequest = []
       then Some (write_console
                    (out @ [ConsoleLog [ustr ''Sample request not found for method: '' @ methodName]])
                    st)
       else (let jsonString = jsonString_of sampleRequest in
             case JSON_parse rt jsonString \<bind> get_params of
               None \<Rightarrow> Some (write_console (out @ [ConsoleLog [jsonString]]) st)
             | Some sampleParams \<Rightarrow>
                 Some (add_method
                         \<lparr>method_name = methodName, method_params = params,
                          method_sampleBody_params = sampleParams,
                          method_category = category, method_deprecated = deprecated\<rparr>
                         (write_console out st)))
     }
   }"

fun main_loop :: "runtime \<Rightarrow> node list \<Rightarrow> state \<Rightarrow> state option" where
  "main_loop rt [] st = Some st"
| "main_loop rt (methodSection # rest) st =
     main_loop_body rt st methodSection \<bind> main_loop rt rest"

text \<open>
  \<open>main\<close> on a fetched document, up to the end of the loop: the state it returns is
  what the writes of the two files receive, and \<open>None\<close> is the TypeError that
  \<open>runMain\<close> catches to leave with status 1, nothing written.
\<close>

definition main :: "runtime \<Rightarrow> node \<Rightarrow> state option" where
  "main rt document =
     main_loop rt (getElementsByClassName ''DocBlock_boPv'' document)
       \<lparr>methods = [], categoryMap = [], console = []\<rparr>"

section \<open>The main loop of the second variant\<close>

text \<open>
  The second variant of the pipeline also records the description of a method and its
  sample response, and keeps an index of the method names by category.
\<close>

record Method2 =
  method2_name :: ustring
  method2_description :: ustring
  method2_params :: "MethodParam list"
  method2_sampleBody_params :: "json option"
  method2_sampleResponse :: json
  method2_category :: MethodCategory2
  method2_deprecated :: bool

record state2 =
  methods2 :: "Method2 list"
  categoryMap2 :: "(MethodCategory2 \<times> Method2 list) list"
  categoryNameMap2 :: "(MethodCategory2 \<times> ustring list) list"
  console2 :: "console_line list"

definition item1 :: "'a list \<Rightarrow> 'a option" where
  "item1 c = (case c of x # y # _ \<Rightarrow> Some y | _ \<Rightarrow> None)"

definition methodDescription_of :: "node \<Rightarrow> ustring option" where
  "methodDescription_of methodSection = do {
     p \<leftarrow> item0 (getElementsByTagName ''p'' methodSection);
     Some (textContent p)
   }"

definition samples_of :: "node \<Rightarrow> (ustring \<times> ustring) option" where
  "samples_of methodSection = do {
     codeSnippets \<leftarrow> item0 (getElementsByClassName ''CodeSnippets_vVvq'' methodSection);
     let codeBlockSections = getElementsByClassName ''codeBlockLines_e6Vv'' codeSnippets;
     requestBlock \<leftarrow> item0 codeBlockSections;
     responseBlock \<leftarrow> item1 codeBlockSections;
     Some (sanitize (textContent requestBlock), sanitize (textContent responseBlock))
   }"

text \<open>
  The \<open>if\<close> that files a method under its category. It stands inside the \<open>try\<close>:
  \<open>None\<close> is the TypeError of pushing on a missing entry of \<open>categoryNameMap\<close>, which
  is thrown before anything is changed.
\<close>

definition add_method2 :: "Method2 \<Rightarrow> state2 \<Rightarrow> state2 option" where
  "add_method2 method st =
     (case map_of (categoryMap2 st) (method2_category method) of
        Some bucket \<Rightarrow> do {
          names \<leftarrow> map_of (categoryNameMap2 st) (method2_category method);
          Some (st\<lparr>categoryNameMap2 :=
                      AList.update (method2_category method) (names @ [method2_name method])
                        (categoryNameMap2 st),
                    categoryMap2 :=
                      AList.update (method2_category method) (bucket @ [method])
                        (categoryMap2 st),
                    methods2 := methods2 st @ [method]\<rparr>)
        }
      | None \<Rightarrow>
          Some (st\<lparr>categoryNameMap2 :=
                      AList.update (method2_category method) [method2_name method]
                        (categoryNameMap2 st),
                    categoryMap2 := categoryMap2 st @ [(method2_category method, [method])],
                    methods2 := methods2 st @ [method]\<rparr>))"

definition write_console2 :: "console_line list \<Rightarrow> state2 \<Rightarrow> state2" where
  "write_console2 out st = st\<lparr>console2 := console2 st @ out\<rparr>"

text \<open>The statements of the last \<open>try\<close>; \<open>None\<close> is whatever its handler catches.\<close>

definition try_emit2 ::
  "runtime \<Rightarrow> state2 \<Rightarrow> ustring \<Rightarrow> ustring \<Rightarrow> MethodParam list \<Rightarrow> MethodCategory2 \<Rightarrow> bool
   \<Rightarrow> ustring \<Rightarrow> ustring \<Rightarrow> state2 option" where
  "try_emit2 rt st methodName methodDescription params category deprecated
     requestJson responseJson = do {
       sampleRequestJson \<leftarrow> JSON_parse rt requestJson;
       sampleResponseJson \<leftarrow> JSON_parse rt responseJson;
       sampleParams \<leftarrow> get_params sampleRequestJson;
       add_method2
         \<lparr>method2_name = methodName, method2_description = methodDescription,
          method2_params = params, method2_sampleBody_params = sampleParams,
          method2_sampleResponse = sampleResponseJson, method2_category = category,
          method2_deprecated = deprecated\<rparr>
         st
     }"

definition main_loop_body2 :: "runtime \<Rightarrow> state2 \<Rightarrow> node \<Rightarrow> state2 option" where
  "main_loop_body2 rt st methodSection = do {
     methodName \<leftarrow> methodName_of methodSection;
     let category = getCategory2 (toLowerCase rt) methodName;
     methodDescription \<leftarrow> methodDescription_of methodSection;
     let deprecated = deprecated_of rt methodSection;
     paramsSection \<leftarrow> paramsSection_of methodSection;
     if \<not> object_is_truthy paramsSection
     then Some (write_console2
                  [ConsoleLog [ustr ''Params section not found for method: '' @ methodName]] st)
     else do {
       (params, out) \<leftarrow> params_loop methodName paramsSection [] [];
       (sampleRequest, sampleResponse) \<leftarrow> samples_of methodSection;
       if sampleRequest = [] \<or> sampleResponse = []
       then Some (write_console2
                    (out @ [ConsoleLog
                       [ustr ''Sample request/response not found for method: '' @ methodName]])
                    st)
       else (let requestJson = jsonString_of sampleRequest;
                 responseJson = sampleResponse in
             case try_emit2 rt (write_console2 out st) methodName methodDescription params
                    category deprecated requestJson responseJson of
               None \<Rightarrow> Some (write_console2 (out @ [ConsoleLog [requestJson, responseJson]]) st)
             | Some st' \<Rightarrow> Some st')
     }
   }"

fun main_loop2 :: "runtime \<Rightarrow> node list \<Rightarrow> state2 \<Rightarrow> state2 option" where
  "main_loop2 rt [] st = Some st"
| "main_loop2 rt (methodSection # rest) st =
     main_loop_body2 rt st methodSection \<bind> main_loop2 rt rest"

definition main2 :: "runtime \<Rightarrow> node \<Rightarrow> state2 option" where
  "main2 rt document =
     main_loop2 rt (getElementsByClassName ''DocBlock_boPv'' document)
       \<lparr>methods2 = [], categoryMap2 = [], categoryNameMap2 = [], console2 = []\<rparr>"

text \<open>
  \<open>categoryMap\<close> is an object literal, so a read \<open>categoryMap[category]\<close> also sees the
  properties of \<open>Object.prototype\<close>. These are their names; the keys the loop uses are
  the values of the enumeration, none of which is among them, which is why the object is
  modelled by its own keys alone.
\<close>

definition Object_prototype_names :: "string list" where
  "Object_prototype_names =
     [''constructor'', ''__defineGetter__'', ''__defineSetter__'', ''hasOwnProperty'',
      ''__lookupGetter__'', ''__lookupSetter__'', ''isPrototypeOf'', ''propertyIsEnumerable'',
      ''toString'', ''valueOf'', ''__proto__'', ''toLocaleString'']"

section \<open>The aggregation invariant\<close>

text \<open>
  A category index is the grouping of a flat list by category when its keys are distinct
  and the bucket at each key is the sublist, in order, of the records of that category,
  categories without a record having no key.
\<close>

definition grouped_by :: "('m \<Rightarrow> 'c) \<Rightarrow> 'm list \<Rightarrow> ('c \<times> 'm list) list \<Rightarrow> bool" where
  "grouped_by cat ms cm \<longleftrightarrow>
     distinct (map fst cm)
     \<and> (\<forall>c. map_of cm c =
            (if c \<in> cat ` set ms then Some (filter (\<lambda>m. cat m = c) ms) else None))"

definition consistent :: "state \<Rightarrow> bool" where
  "consistent st \<longleftrightarrow>
     grouped_by method_category (methods st) (categoryMap st)
     \<and> sum_list (map (\<lambda>(c, bucket). length bucket) (categoryMap st)) = length (methods st)"

definition consistent2 :: "state2 \<Rightarrow> bool" where
  "consistent2 st \<longleftrightarrow>
     grouped_by method2_category (methods2 st) (categoryMap2 st)
     \<and> sum_list (map (\<lambda>(c, bucket). length bucket) (categoryMap2 st)) = length (methods2 st)"

section \<open>Example inputs\<close>

text \<open>A sample request in the shape of the page's entry for \<open>simulateTransaction\<close>.\<close>

definition sample_simulate :: ustring where
  "sample_simulate =
     ustr ''curl d '' @ [0x27]
     @ ustr ''{ \"method\": \"simulateTransaction\", \"params\": [{\"encoding\":\"base64\",}]}''
     @ [0x27]"

text \<open>
  A runtime for the examples. Its parser reads the texts \<open>{}\<close>, \<open>null\<close> and
  \<open>{"method":"NAME","params":[]}\<close>, for a name without quote, backslash or control
  character, as \<open>JSON.parse\<close> does, and rejects every other text.
\<close>

definition sample_parse :: "ustring \<Rightarrow> json option" where
  "sample_parse s =
     (let pre = ustr ''{\"method\":\"''; post = ustr ''\",\"params\":[]}'';
          name = take (length s - length pre - length post) (drop (length pre) s)
      in if s = ustr ''{}'' then Some (JObject [])
         else if s = ustr ''null'' then Some JNull
         else if s = pre @ name @ post
                 \<and> list_all (\<lambda>c. 0x20 \<le> c \<and> c \<noteq> 0x22 \<and> c \<noteq> 0x5C) name
         then Some (JObject [(ustr ''method'', JString name), (ustr ''params'', JArray [])])
         else None)"

definition sample_runtime :: runtime where
  "sample_runtime = \<lparr>toLowerCase = ascii_toLowerCase, JSON_parse = sample_parse\<rparr>"

text \<open>The pieces of a method block of the page.\<close>

definition sample_request :: "string \<Rightarrow> ustring" where
  "sample_request name =
     ustr ''curl -d '' @ [0x27, 0x0A] @ ustr ''{\"method\": \"'' @ ustr name
     @ ustr ''\", \"params\": []}'' @ [0x0A, 0x27, 0x0A]"

definition sample_header :: "string \<Rightarrow> node list \<Rightarrow> node" where
  "sample_header type flagItems =
     Element ''div'' [''ParameterHeader_UUsJ''] (Element ''code'' [] [Text (ustr type)] # flagItems)"

definition sample_flag :: "string \<Rightarrow> node" where
  "sample_flag flag = Element ''span'' [''FlagItem_qZK_''] [Text (ustr flag)]"

definition sample_param :: "string \<Rightarrow> string \<Rightarrow> node" where
  "sample_param type flag =
     Element ''div'' [''Parameter_p8dk''] [sample_header type [sample_flag flag]]"

definition sample_snippets :: "ustring \<Rightarrow> node" where
  "sample_snippets request =
     Element ''section'' [''CodeSnippets_vVvq'']
       [Element ''div'' [''codeBlockLines_e6Vv''] [Text request],
        Element ''div'' [''codeBlockLines_e6Vv''] [Text (ustr ''{}'')]]"

definition sample_block :: "string \<Rightarrow> node list \<Rightarrow> ustring \<Rightarrow> node" where
  "sample_block name params request =
     Element ''section'' [''DocBlock_boPv'']
       [Element ''h2'' [] [Text (ustr name)],
        Element ''p'' [] [Text (ustr ''Returns a value'')],
        Element ''section'' [''CodeParams_B82f''] params,
        sample_snippets request]"

text \<open>A page of three well-formed method blocks.\<close>

definition getBlock_block :: node where
  "getBlock_block =
     sample_block ''getBlock'' [sample_param ''u64'' ''required''] (sample_request ''getBlock'')"

definition getBalance_block :: node where
  "getBalance_block =
     sample_block ''getBalance'' [sample_param ''string'' ''required'']
       (sample_request ''getBalance'')"

definition getBlockHeight_block :: node where
  "getBlockHeight_block = sample_block ''getBlockHeight'' [] (sample_request ''getBlockHeight'')"

definition sample_document :: node where
  "sample_document = Element ''body'' [] [getBlock_block, getBalance_block, getBlockHeight_block]"

text \<open>A method block whose sample is not JSON, and one whose sample has no brace.\<close>

definition malformed_sample :: ustring where
  "malformed_sample = ustr ''curl d '' @ [0x27] @ ustr ''{\"method\": oops}'' @ [0x27]"

definition malformed_sample_block :: node where
  "malformed_sample_block = sample_block ''getFees'' [] malformed_sample"



text \<open>
  Pages on which each of these two blocks is followed by a well-formed one, and a
  method block whose sample text is empty.
\<close>

definition malformed_then_getBlock_document :: node where
  "malformed_then_getBlock_document =
     Element ''body'' [] [malformed_sample_block, getBlock_block]"



text \<open>A method block with a heading and samples but no parameter section.\<close>

definition no_params_block :: node where
  "no_params_block =
     Element ''section'' [''DocBlock_boPv'']
       [Element ''h2'' [] [Text (ustr ''getHealth'')],
        sample_snippets (sample_request ''getHealth'')]"

definition no_params_document :: node where
  "no_params_document = Element ''body'' [] [no_params_block, getBlock_block]"

text \<open>A parameter with a type and no flag element.\<close>

definition flagless_param :: node where
  "flagless_param = Element ''div'' [''Parameter_p8dk''] [sample_header ''string'' []]"

definition flagless_document :: node where
  "flagless_document =
     Element ''body'' []
       [sample_block ''getBalance'' [flagless_param] (sample_request ''getBalance'')]"

text \<open>
  An object parameter with three fields \<open>a\<close>, \<open>b\<close> and \<open>c\<close>, the second of which has
  lost its name element.
\<close>

definition sample_field :: "node list \<Rightarrow> string \<Rightarrow> node" where
  "sample_field nameElements type =
     Element ''div'' [''Field_MIDZ'']
       (nameElements @ [Element ''code'' [] [Text (ustr type)]])"

definition sample_field_name :: "string \<Rightarrow> node" where
  "sample_field_name name = Element ''span'' [''ParameterName_c9Z4''] [Text (ustr name)]"

definition object_param :: node where
  "object_param =
     Element ''div'' [''Parameter_p8dk'']
       [sample_header ''object'' [sample_flag ''required''],
        sample_field [sample_field_name ''a''] ''string'',
        sample_field [] ''u64'',
        sample_field [sample_field_name ''c''] ''bool'']"

section \<open>Properties of the string operations\<close>

lemma includes_sublist: "str_includes s sub \<longleftrightarrow> sublist sub s"
  by (induction s) (auto simp: sublist_Cons_right)

lemma includes_length: "str_includes s sub \<Longrightarrow> length sub \<le> length s"
  by (simp add: includes_sublist sublist_length_le)

lemma indexOf_char:
  "indexOf s [x] = (if x \<in> set s then int (length (takeWhile (\<lambda>c. c \<noteq> x) s)) else - 1)"
  by (induction s) (auto simp: Let_def)

lemma takeWhile_neq_less: "x \<in> set s \<Longrightarrow> length (takeWhile (\<lambda>c. c \<noteq> x) s) < length s"
  by (induction s) auto

lemma slice_to_last:
  assumes "i < length s"
  shows "slice s (int i) (- 1) = butlast (drop i s)"
proof -
  have "slice s (int i) (- 1) = take (nat (int (length s) - 1 - int i)) (drop i s)"
  proof -
    from assms have "max (int (length s) - 1) 0 = int (length s) - 1" by simp
    with assms show ?thesis by (simp add: slice_def Let_def)
  qed
  also have "nat (int (length s) - 1 - int i) = length s - 1 - i"
    by linarith
  finally show ?thesis by (simp add: butlast_conv_take)
qed

lemma slice_from_first:
  "slice s (indexOf s [x]) (- 1) = butlast (dropWhile (\<lambda>c. c \<noteq> x) s)"
proof (cases "x \<in> set s")
  case False
  then have "dropWhile (\<lambda>c. c \<noteq> x) s = []" by (induction s) auto
  moreover from False have "slice s (indexOf s [x]) (- 1) = []"
    by (simp add: indexOf_char slice_def Let_def)
  ultimately show ?thesis by (simp del: dropWhile_eq_Nil_conv)
next
  case True
  have "dropWhile (\<lambda>c. c \<noteq> x) s = drop (length (takeWhile (\<lambda>c. c \<noteq> x) s)) s"
    by (simp add: dropWhile_eq_drop)
  moreover have "slice s (indexOf s [x]) (- 1) = butlast (drop (length (takeWhile (\<lambda>c. c \<noteq> x) s)) s)"
    using True by (simp only: indexOf_char if_True slice_to_last [OF takeWhile_neq_less])
  ultimately show ?thesis by (simp only:)
qed

lemma substring_prefix: "0 \<le> i \<Longrightarrow> substring s 0 i = take (nat i) s"
  by (cases "i \<le> int (length s)") (simp_all add: substring_def Let_def)

lemma substring_from_suffix: "0 \<le> i \<Longrightarrow> substring_from s i = drop (nat i) s"
  by (cases "i \<le> int (length s)") (simp_all add: substring_def substring_from_def Let_def)

lemma removeAt_list:
  "0 \<le> i \<Longrightarrow> removeAt i s = take (nat i) s @ drop (Suc (nat i)) s"
  by (simp add: removeAt_def substring_prefix substring_from_suffix nat_add_distrib)

lemma jsonCandidate_spec: "jsonCandidate s = spec_candidate s"
proof -
  have "ustr ''{'' = [0x7B]" by (simp add: ustr_def)
  then show ?thesis
    by (simp add: jsonCandidate_def spec_candidate_def slice_from_first)
qed

lemma length_ustr: "length (ustr s) = length s"
  by (simp add: ustr_def)

section \<open>The aggregation invariant is kept by the loop\<close>

lemma grouped_by_new:
  assumes "grouped_by cat ms cm" and "map_of cm (cat m) = None"
  shows "grouped_by cat (ms @ [m]) (cm @ [(cat m, [m])])"
proof -
  from assms have notin: "cat m \<notin> cat ` set ms"
    by (auto simp: grouped_by_def split: if_splits)
  then have empty: "filter (\<lambda>x. cat x = cat m) ms = []"
    by (auto simp: filter_empty_conv dest!: sym [of "cat _" "cat m"])
  from assms(2) have "cat m \<notin> fst ` set cm" by (simp add: map_of_eq_None_iff)
  with assms(1) have d: "distinct (map fst (cm @ [(cat m, [m])]))"
    by (simp add: grouped_by_def)
  have "map_of (cm @ [(cat m, [m])]) c =
        (if c \<in> cat ` set (ms @ [m]) then Some (filter (\<lambda>x. cat x = c) (ms @ [m])) else None)" for c
  proof (cases "c = cat m")
    case True
    with assms(2) empty show ?thesis by (simp add: map_add_def)
  next
    case False
    with assms(1) show ?thesis by (auto simp: grouped_by_def map_add_def split: option.splits)
  qed
  with d show ?thesis by (simp add: grouped_by_def)
qed

lemma grouped_by_push:
  assumes "grouped_by cat ms cm" and "map_of cm (cat m) = Some bucket"
  shows "grouped_by cat (ms @ [m]) (AList.update (cat m) (bucket @ [m]) cm)"
proof -
  from assms have b: "bucket = filter (\<lambda>x. cat x = cat m) ms"
    by (auto simp: grouped_by_def split: if_splits)
  from assms(1) have d: "distinct (map fst (AList.update (cat m) (bucket @ [m]) cm))"
    by (simp add: grouped_by_def distinct_update)
  have "map_of (AList.update (cat m) (bucket @ [m]) cm) c =
        (if c \<in> cat ` set (ms @ [m]) then Some (filter (\<lambda>x. cat x = c) (ms @ [m])) else None)" for c
  proof (cases "c = cat m")
    case True
    with b show ?thesis by (simp add: update_conv')
  next
    case False
    with assms(1) show ?thesis by (auto simp: grouped_by_def update_conv')
  qed
  with d show ?thesis by (simp add: grouped_by_def)
qed

lemma bucket_sum_push:
  "map_of cm k = Some bucket \<Longrightarrow>
   sum_list (map (\<lambda>(c, b). length b) (AList.update k (bucket @ [m]) cm))
   = Suc (sum_list (map (\<lambda>(c, b). length b) cm))"
  by (induction cm) (auto split: if_splits)

lemma grouped_by_bucket:
  assumes "grouped_by cat ms cm" and "(c, b) \<in> set cm"
  shows "b = filter (\<lambda>m. cat m = c) ms"
proof -
  from assms(1) have "distinct (map fst cm)" by (simp add: grouped_by_def)
  from this assms(2) have "map_of cm c = Some b" by (rule map_of_is_SomeI)
  moreover from assms(1) have "map_of cm c =
      (if c \<in> cat ` set ms then Some (filter (\<lambda>m. cat m = c) ms) else None)"
    by (simp add: grouped_by_def)
  ultimately show ?thesis by (simp split: if_splits)
qed

lemma grouped_by_member:
  assumes "grouped_by cat ms cm" and "m \<in> set ms"
  shows "\<exists>b. (cat m, b) \<in> set cm \<and> m \<in> set b"
proof -
  from assms have "map_of cm (cat m) = Some (filter (\<lambda>x. cat x = cat m) ms)"
    by (auto simp: grouped_by_def)
  then have "(cat m, filter (\<lambda>x. cat x = cat m) ms) \<in> set cm" by (rule map_of_SomeD)
  moreover from assms(2) have "m \<in> set (filter (\<lambda>x. cat x = cat m) ms)" by simp
  ultimately show ?thesis by blast
qed

lemma consistent_write_console: "consistent (write_console out st) = consistent st"
  by (simp add: consistent_def write_console_def)

lemma consistent_add_method: "consistent st \<Longrightarrow> consistent (add_method m st)"
  by (cases "map_of (categoryMap st) (method_category m)")
     (simp_all add: consistent_def add_method_def grouped_by_new grouped_by_push bucket_sum_push)

lemma main_loop_body_cases:
  assumes "main_loop_body rt st sec = Some st'"
  shows "(\<exists>out. st' = write_console out st) \<or> (\<exists>m out. st' = add_method m (write_console out st))"
  using assms
  by (auto simp: main_loop_body_def Let_def object_is_truthy_def
           split: Option.bind_splits if_splits option.splits prod.splits)

lemma main_loop_body_consistent:
  "main_loop_body rt st sec = Some st' \<Longrightarrow> consistent st \<Longrightarrow> consistent st'"
  by (auto dest!: main_loop_body_cases simp: consistent_write_console consistent_add_method)

lemma main_loop_consistent:
  "main_loop rt secs st = Some st' \<Longrightarrow> consistent st \<Longrightarrow> consistent st'"
proof (induction secs arbitrary: st)
  case Nil
  then show ?case by simp
next
  case (Cons sec secs)
  from Cons.prems(1) obtain st1 where
    b: "main_loop_body rt st sec = Some st1" and r: "main_loop rt secs st1 = Some st'"
    by (auto split: Option.bind_splits)
  from b Cons.prems(2) have "consistent st1" by (rule main_loop_body_consistent)
  with r show ?case by (rule Cons.IH)
qed

lemma main_consistent: "main rt document = Some st \<Longrightarrow> consistent st"
  unfolding main_def
  by (erule main_loop_consistent) (simp add: consistent_def grouped_by_def)

lemma consistent2_write_console: "consistent2 (write_console2 out st) = consistent2 st"
  by (simp add: consistent2_def write_console2_def)

lemma consistent2_add_method:
  assumes "consistent2 st" and "add_method2 m st = Some st'"
  shows "consistent2 st'"
proof (cases "map_of (categoryMap2 st) (method2_category m)")
  case None
  with assms show ?thesis
    by (auto simp: consistent2_def add_method2_def grouped_by_new)
next
  case (Some bucket)
  with assms show ?thesis
    by (auto simp: consistent2_def add_method2_def grouped_by_push bucket_sum_push
             split: Option.bind_splits)
qed

lemma main_loop_body2_cases:
  assumes "main_loop_body2 rt st sec = Some st'"
  shows "(\<exists>out. st' = write_console2 out st)
         \<or> (\<exists>m out. add_method2 m (write_console2 out st) = Some st')"
  using assms
  by (auto simp: main_loop_body2_def try_emit2_def Let_def object_is_truthy_def
           split: Option.bind_splits if_splits option.splits prod.splits)

lemma main_loop_body2_consistent:
  "main_loop_body2 rt st sec = Some st' \<Longrightarrow> consistent2 st \<Longrightarrow> consistent2 st'"
  by (auto dest!: main_loop_body2_cases
           simp: consistent2_write_console
           intro: consistent2_add_method [OF iffD2 [OF consistent2_write_console]])

lemma main_loop2_consistent:
  "main_loop2 rt secs st = Some st' \<Longrightarrow> consistent2 st \<Longrightarrow> consistent2 st'"
proof (induction secs arbitrary: st)
  case Nil
  then show ?case by simp
next
  case (Cons sec secs)
  from Cons.prems(1) obtain st1 where
    b: "main_loop_body2 rt st sec = Some st1" and r: "main_loop2 rt secs st1 = Some st'"
    by (auto split: Option.bind_splits)
  from b Cons.prems(2) have "consistent2 st1" by (rule main_loop_body2_consistent)
  with r show ?case by (rule Cons.IH)
qed

lemma main2_consistent: "main2 rt document = Some st \<Longrightarrow> consistent2 st"
  unfolding main2_def
  by (erule main_loop2_consistent) (simp add: consistent2_def grouped_by_def)

lemma consistent_properties:
  assumes "consistent st"
  shows "sum_list (map (\<lambda>(c, bucket). length bucket) (categoryMap st)) = length (methods st)
     \<and> distinct (map fst (categoryMap st))
     \<and> (\<forall>m \<in> set (methods st).
           \<exists>bucket. (method_category m, bucket) \<in> set (categoryMap st) \<and> m \<in> set bucket)
     \<and> (\<forall>(c, bucket) \<in> set (categoryMap st).
           bucket = filter (\<lambda>m. method_category m = c) (methods st))"
proof -
  from assms have g: "grouped_by method_category (methods st) (categoryMap st)"
    and n: "sum_list (map (\<lambda>(c, bucket). length bucket) (categoryMap st)) = length (methods st)"
    by (simp_all add: consistent_def)
  from g have d: "distinct (map fst (categoryMap st))" by (simp add: grouped_by_def)
  from g have m: "\<forall>m \<in> set (methods st).
           \<exists>bucket. (method_category m, bucket) \<in> set (categoryMap st) \<and> m \<in> set bucket"
    by (blast dest: grouped_by_member)
  from g have b: "\<forall>(c, bucket) \<in> set (categoryMap st).
           bucket = filter (\<lambda>m. method_category m = c) (methods st)"
    by (blast dest: grouped_by_bucket)
  from n d m b show ?thesis by blast
qed

lemma consistent2_properties:
  assumes "consistent2 st"
  shows "sum_list (map (\<lambda>(c, bucket). length bucket) (categoryMap2 st)) = length (methods2 st)
     \<and> distinct (map fst (categoryMap2 st))
     \<and> (\<forall>m \<in> set (methods2 st).
           \<exists>bucket. (method2_category m, bucket) \<in> set (categoryMap2 st) \<and> m \<in> set bucket)
     \<and> (\<forall>(c, bucket) \<in> set (categoryMap2 st).
           bucket = filter (\<lambda>m. method2_category m = c) (methods2 st))"
proof -
  from assms have g: "grouped_by method2_category (methods2 st) (categoryMap2 st)"
    and n: "sum_list (map (\<lambda>(c, bucket). length bucket) (categoryMap2 st)) = length (methods2 st)"
    by (simp_all add: consistent2_def)
  from g have d: "distinct (map fst (categoryMap2 st))" by (simp add: grouped_by_def)
  from g have m: "\<forall>m \<in> set (methods2 st).
           \<exists>bucket. (method2_category m, bucket) \<in> set (categoryMap2 st) \<and> m \<in> set bucket"
    by (blast dest: grouped_by_member)
  from g have b: "\<forall>(c, bucket) \<in> set (categoryMap2 st).
           bucket = filter (\<lambda>m. method2_category m = c) (methods2 st)"
    by (blast dest: grouped_by_bucket)
  from n d m b show ?thesis by blast
qed

section \<open>The ways through one turn of the loop\<close>

lemma main_loop_body_skip:
  assumes "methodName_of sec = Some mn" and "paramsSection_of sec = Some ps"
    and "params_loop mn ps [] [] = Some (params, out)"
    and "sampleRequest_of sec = Some s" and "s \<noteq> []"
    and "JSON_parse rt (jsonString_of s) = None"
  shows "main_loop_body rt st sec = Some (write_console (out @ [ConsoleLog [jsonString_of s]]) st)"
  using assms by (simp add: main_loop_body_def object_is_truthy_def Let_def)


lemma main_loop_body2_skip:
  assumes "methodName_of sec = Some mn" and "methodDescription_of sec = Some d"
    and "paramsSection_of sec = Some ps"
    and "params_loop mn ps [] [] = Some (params, out)"
    and "samples_of sec = Some (s, r)" and "s \<noteq> []" and "r \<noteq> []"
    and "JSON_parse rt (jsonString_of s) = None"
  shows "main_loop_body2 rt st sec =
         Some (write_console2 (out @ [ConsoleLog [jsonString_of s, r]]) st)"
  using assms by (simp add: main_loop_body2_def try_emit2_def object_is_truthy_def Let_def)




lemma main_loop_body_no_params:
  "paramsSection_of sec = None \<Longrightarrow> main_loop_body rt st sec = None"
  by (simp add: main_loop_body_def split: Option.bind_splits)

lemma main_loop_body2_no_params:
  "paramsSection_of sec = None \<Longrightarrow> main_loop_body2 rt st sec = None"
  by (simp add: main_loop_body2_def split: Option.bind_splits)

lemma main_loop_body_params_raise:
  "paramsSection_of sec = Some ps \<Longrightarrow> methodName_of sec = Some mn \<Longrightarrow>
   params_loop mn ps [] [] = None \<Longrightarrow> main_loop_body rt st sec = None"
  by (simp add: main_loop_body_def object_is_truthy_def)

lemma main_loop_body2_params_raise:
  "paramsSection_of sec = Some ps \<Longrightarrow> methodName_of sec = Some mn \<Longrightarrow>
   params_loop mn ps [] [] = None \<Longrightarrow> main_loop_body2 rt st sec = None"
  by (simp add: main_loop_body2_def object_is_truthy_def split: Option.bind_splits)

lemma main_loop_raise:
  "main_loop_body rt st sec = None \<Longrightarrow> main_loop rt (sec # rest) st = None"
  by simp

lemma main_loop2_raise:
  "main_loop_body2 rt st sec = None \<Longrightarrow> main_loop2 rt (sec # rest) st = None"
  by simp

lemma params_loop_no_flag:
  "getElementsByClassName ''FlagItem_qZK_'' param = [] \<Longrightarrow>
   params_loop mn (param # rest) params out = None"
  by (simp add: item0_def split: Option.bind_splits prod.splits)

lemma fields_loop_raise:
  "read_field fieldSection = None \<Longrightarrow>
   fields_loop mn (fieldSection # rest) fieldArray out = (fieldArray, out, True)"
  by simp

lemma sanitize_keeps_brace: "0x7B \<in> set (sanitize t) \<longleftrightarrow> 0x7B \<in> set t"
  by (simp add: sanitize_def sanitize_class_def)

lemma MethodCategory_value_inj: "inj MethodCategory_value"
proof (rule injI)
  fix x y
  assume "MethodCategory_value x = MethodCategory_value y"
  then show "x = y" by (cases x; cases y) simp_all
qed

lemma MethodCategory2_value_inj: "inj MethodCategory2_value"
proof (rule injI)
  fix x y
  assume "MethodCategory2_value x = MethodCategory2_value y"
  then show "x = y" by (cases x; cases y) simp_all
qed

lemma MethodCategory_value_own: "MethodCategory_value c \<notin> set Object_prototype_names"
  by (cases c) (simp_all add: Object_prototype_names_def)

lemma MethodCategory2_value_own: "MethodCategory2_value c \<notin> set Object_prototype_names"
  by (cases c) (simp_all add: Object_prototype_names_def)

lemma write_console_Nil: "write_console [] st = st"
  by (simp add: write_console_def)

lemma write_console2_Nil: "write_console2 [] st = st"
  by (simp add: write_console2_def)

lemma main_loop_body_emit:
  assumes "methodName_of sec = Some mn" and "paramsSection_of sec = Some ps"
    and "params_loop mn ps [] [] = Some (params, out)"
    and "sampleRequest_of sec = Some s" and "s \<noteq> []"
    and "JSON_parse rt (jsonString_of s) = Some j" and "get_params j = Some p"
  shows "main_loop_body rt st sec =
         Some (add_method
                 \<lparr>method_name = mn, method_params = params, method_sampleBody_params = p,
                  method_category = getCategory (toLowerCase rt) mn,
                  method_deprecated = deprecated_of rt sec\<rparr>
                 (write_console out st))"
  using assms by (simp add: main_loop_body_def object_is_truthy_def Let_def)

lemma main_loop_body2_emit:
  assumes "methodName_of sec = Some mn" and "methodDescription_of sec = Some d"
    and "paramsSection_of sec = Some ps"
    and "params_loop mn ps [] [] = Some (params, out)"
    and "samples_of sec = Some (s, r)" and "s \<noteq> []" and "r \<noteq> []"
    and "JSON_parse rt (jsonString_of s) = Some j" and "JSON_parse rt r = Some k"
    and "get_params j = Some p"
  shows "main_loop_body2 rt st sec =
         (case add_method2
                 \<lparr>method2_name = mn, method2_description = d, method2_params = params,
                  method2_sampleBody_params = p, method2_sampleResponse = k,
                  method2_category = getCategory2 (toLowerCase rt) mn,
                  method2_deprecated = deprecated_of rt sec\<rparr>
                 (write_console2 out st) of
            None \<Rightarrow> Some (write_console2 (out @ [ConsoleLog [jsonString_of s, r]]) st)
          | Some st' \<Rightarrow> Some st')"
  using assms by (simp add: main_loop_body2_def try_emit2_def object_is_truthy_def Let_def)

lemma write_console_fields:
  "methods (write_console out st) = methods st"
  "categoryMap (write_console out st) = categoryMap st"
  "console (write_console out st) = console st @ out"
  by (simp_all add: write_console_def)

lemma write_console2_fields:
  "methods2 (write_console2 out st) = methods2 st"
  "categoryMap2 (write_console2 out st) = categoryMap2 st"
  "categoryNameMap2 (write_console2 out st) = categoryNameMap2 st"
  "console2 (write_console2 out st) = console2 st @ out"
  by (simp_all add: write_console2_def)

section \<open>The example inputs, evaluated\<close>

lemmas sample_dom_defs =
  getElementsByClassName_def getElementsByTagName_def item0_def item1_def
  sample_block_def sample_param_def sample_header_def sample_flag_def sample_snippets_def

lemma params_loop_u64:
  "params_loop mn [sample_param ''u64'' ''required''] [] [] =
   Some ([\<lparr>param_type = ustr ''u64'', param_required = True, param_fields = []\<rparr>], [])"
  by (simp add: sample_dom_defs try_fields_def trim_def is_whitespace_def sanitize_def
      sanitize_class_def ustr_def)

lemma params_loop_string:
  "params_loop mn [sample_param ''string'' ''required''] [] [] =
   Some ([\<lparr>param_type = ustr ''string'', param_required = True, param_fields = []\<rparr>], [])"
  by (simp add: sample_dom_defs try_fields_def trim_def is_whitespace_def sanitize_def
      sanitize_class_def ustr_def)

lemmas string_eval_defs =
  jsonString_of_def jsonCandidate_def sample_request_def sanitize_def sanitize_class_def ustr_def
  slice_def trim_def replace_whitespace_def is_whitespace_def Let_def

lemma request_getBlock:
  "sanitize (sample_request ''getBlock'') \<noteq> []"
  "jsonString_of (sanitize (sample_request ''getBlock'')) = ustr ''{\"method\":\"getBlock\",\"params\":[]}''"
  by (simp_all add: string_eval_defs)

lemma request_getBalance:
  "sanitize (sample_request ''getBalance'') \<noteq> []"
  "jsonString_of (sanitize (sample_request ''getBalance'')) = ustr ''{\"method\":\"getBalance\",\"params\":[]}''"
  by (simp_all add: string_eval_defs)

lemma request_getBlockHeight:
  "sanitize (sample_request ''getBlockHeight'') \<noteq> []"
  "jsonString_of (sanitize (sample_request ''getBlockHeight'')) = ustr ''{\"method\":\"getBlockHeight\",\"params\":[]}''"
  by (simp_all add: string_eval_defs)

lemma parse_samples:
  "sample_parse (ustr ''{\"method\":\"getBlock\",\"params\":[]}'') =
     Some (JObject [(ustr ''method'', JString (ustr ''getBlock'')), (ustr ''params'', JArray [])])"
  "sample_parse (ustr ''{\"method\":\"getBalance\",\"params\":[]}'') =
     Some (JObject [(ustr ''method'', JString (ustr ''getBalance'')), (ustr ''params'', JArray [])])"
  "sample_parse (ustr ''{\"method\":\"getBlockHeight\",\"params\":[]}'') =
     Some (JObject [(ustr ''method'', JString (ustr ''getBlockHeight'')), (ustr ''params'', JArray [])])"
  "sample_parse (ustr ''{}'') = Some (JObject [])"
  by (simp_all add: sample_parse_def ustr_def Let_def)

lemma get_params_sample:
  "get_params (JObject [(ustr ''method'', JString n), (ustr ''params'', JArray [])]) = Some (Some (JArray []))"
  by (simp add: ustr_def)

lemma sample_categories:
  "getCategory ascii_toLowerCase (ustr ''getBlock'') = Block"
  "getCategory ascii_toLowerCase (ustr ''getBalance'') = Misc"
  "getCategory ascii_toLowerCase (ustr ''getBlockHeight'') = Block"
  "getCategory2 ascii_toLowerCase (ustr ''getBlock'') = Block2"
  "getCategory2 ascii_toLowerCase (ustr ''getBalance'') = Miscellaneous2"
  "getCategory2 ascii_toLowerCase (ustr ''getBlockHeight'') = Block2"
  by (simp_all add: getCategory_def getCategory2_def ascii_toLowerCase_def ustr_def)

lemma sample_document_blocks:
  "getElementsByClassName ''DocBlock_boPv'' sample_document
   = [getBlock_block, getBalance_block, getBlockHeight_block]"
  by (simp add: sample_document_def getBlock_block_def getBalance_block_def
      getBlockHeight_block_def sample_dom_defs)

lemma sample_rt: "toLowerCase sample_runtime = ascii_toLowerCase" "JSON_parse sample_runtime = sample_parse"
  by (simp_all add: sample_runtime_def)

lemma ustr_braces:
  "ustr ''{}'' \<noteq> []"
  "JSON_parse sample_runtime (ustr ''{}'') = Some (JObject [])"
  by (simp_all add: sample_rt parse_samples) (simp add: ustr_def)

lemma getBlock_block_reads:
  "methodName_of getBlock_block = Some (ustr ''getBlock'')"
  "methodDescription_of getBlock_block = Some (ustr ''Returns a value'')"
  "paramsSection_of getBlock_block = Some [sample_param ''u64'' ''required'']"
  "sampleRequest_of getBlock_block = Some (sanitize (sample_request ''getBlock''))"
  "samples_of getBlock_block = Some (sanitize (sample_request ''getBlock''), ustr ''{}'')"
  by (simp_all add: getBlock_block_def methodName_of_def methodDescription_of_def paramsSection_of_def
      sampleRequest_of_def samples_of_def sample_dom_defs sanitize_def sanitize_class_def ustr_def)

lemma getBlock_block_parse:
  "JSON_parse sample_runtime (jsonString_of (sanitize (sample_request ''getBlock''))) =
     Some (JObject [(ustr ''method'', JString (ustr ''getBlock'')), (ustr ''params'', JArray [])])"
  by (simp add: sample_rt request_getBlock parse_samples)

lemma body_getBlock:
  "main_loop_body sample_runtime st getBlock_block =
     Some (add_method
        \<lparr>method_name = ustr ''getBlock'', method_params = [\<lparr>param_type = ustr ''u64'', param_required = True, param_fields = []\<rparr>],
         method_sampleBody_params = Some (JArray []), method_category = Block,
         method_deprecated = deprecated_of sample_runtime getBlock_block\<rparr> st)"
  using main_loop_body_emit [OF getBlock_block_reads(1) getBlock_block_reads(3) params_loop_u64
      getBlock_block_reads(4) request_getBlock(1) getBlock_block_parse get_params_sample, of st]
  by (simp add: sample_rt sample_categories write_console_Nil)

lemma body2_getBlock:
  "main_loop_body2 sample_runtime st getBlock_block =
     (case add_method2
        \<lparr>method2_name = ustr ''getBlock'', method2_description = ustr ''Returns a value'',
         method2_params = [\<lparr>param_type = ustr ''u64'', param_required = True, param_fields = []\<rparr>],
         method2_sampleBody_params = Some (JArray []), method2_sampleResponse = JObject [],
         method2_category = Block2,
         method2_deprecated = deprecated_of sample_runtime getBlock_block\<rparr> st of
        None \<Rightarrow> Some (write_console2
                  [ConsoleLog [jsonString_of (sanitize (sample_request ''getBlock'')), ustr ''{}'']] st)
      | Some st' \<Rightarrow> Some st')"
  using main_loop_body2_emit [OF getBlock_block_reads(1) getBlock_block_reads(2) getBlock_block_reads(3) params_loop_u64
      getBlock_block_reads(5) request_getBlock(1) ustr_braces(1) getBlock_block_parse ustr_braces(2)
      get_params_sample, of st]
  by (simp add: sample_rt sample_categories write_console2_Nil split: option.splits)

lemma getBalance_block_reads:
  "methodName_of getBalance_block = Some (ustr ''getBalance'')"
  "methodDescription_of getBalance_block = Some (ustr ''Returns a value'')"
  "paramsSection_of getBalance_block = Some [sample_param ''string'' ''required'']"
  "sampleRequest_of getBalance_block = Some (sanitize (sample_request ''getBalance''))"
  "samples_of getBalance_block = Some (sanitize (sample_request ''getBalance''), ustr ''{}'')"
  by (simp_all add: getBalance_block_def methodName_of_def methodDescription_of_def paramsSection_of_def
      sampleRequest_of_def samples_of_def sample_dom_defs sanitize_def sanitize_class_def ustr_def)

lemma getBalance_block_parse:
  "JSON_parse sample_runtime (jsonString_of (sanitize (sample_request ''getBalance''))) =
     Some (JObject [(ustr ''method'', JString (ustr ''getBalance'')), (ustr ''params'', JArray [])])"
  by (simp add: sample_rt request_getBalance parse_samples)

lemma body_getBalance:
  "main_loop_body sample_runtime st getBalance_block =
     Some (add_method
        \<lparr>method_name = ustr ''getBalance'', method_params = [\<lparr>param_type = ustr ''string'', param_required = True, param_fields = []\<rparr>],
         method_sampleBody_params = Some (JArray []), method_category = Misc,
         method_deprecated = deprecated_of sample_runtime getBalance_block\<rparr> st)"
  using main_loop_body_emit [OF getBalance_block_reads(1) getBalance_block_reads(3) params_loop_string
      getBalance_block_reads(4) request_getBalance(1) getBalance_block_parse get_params_sample, of st]
  by (simp add: sample_rt sample_categories write_console_Nil)

lemma body2_getBalance:
  "main_loop_body2 sample_runtime st getBalance_block =
     (case add_method2
        \<lparr>method2_name = ustr ''getBalance'', method2_description = ustr ''Returns a value'',
         method2_params = [\<lparr>param_type = ustr ''string'', param_required = True, param_fields = []\<rparr>],
         method2_sampleBody_params = Some (JArray []), method2_sampleResponse = JObject [],
         method2_category = Miscellaneous2,
         method2_deprecated = deprecated_of sample_runtime getBalance_block\<rparr> st of
        None \<Rightarrow> Some (write_console2
                  [ConsoleLog [jsonString_of (sanitize (sample_request ''getBalance'')), ustr ''{}'']] st)
      | Some st' \<Rightarrow> Some st')"
  using main_loop_body2_emit [OF getBalance_block_reads(1) getBalance_block_reads(2) getBalance_block_reads(3) params_loop_string
      getBalance_block_reads(5) request_getBalance(1) ustr_braces(1) getBalance_block_parse ustr_braces(2)
      get_params_sample, of st]
  by (simp add: sample_rt sample_categories write_console2_Nil split: option.splits)

lemma getBlockHeight_block_reads:
  "methodName_of getBlockHeight_block = Some (ustr ''getBlockHeight'')"
  "methodDescription_of getBlockHeight_block = Some (ustr ''Returns a value'')"
  "paramsSection_of getBlockHeight_block = Some []"
  "sampleRequest_of getBlockHeight_block = Some (sanitize (sample_request ''getBlockHeight''))"
  "samples_of getBlockHeight_block = Some (sanitize (sample_request ''getBlockHeight''), ustr ''{}'')"
  by (simp_all add: getBlockHeight_block_def methodName_of_def methodDescription_of_def paramsSection_of_def
      sampleRequest_of_def samples_of_def sample_dom_defs sanitize_def sanitize_class_def ustr_def)

lemma getBlockHeight_block_parse:
  "JSON_parse sample_runtime (jsonString_of (sanitize (sample_request ''getBlockHeight''))) =
     Some (JObject [(ustr ''method'', JString (ustr ''getBlockHeight'')), (ustr ''params'', JArray [])])"
  by (simp add: sample_rt request_getBlockHeight parse_samples)

lemma body_getBlockHeight:
  "main_loop_body sample_runtime st getBlockHeight_block =
     Some (add_method
        \<lparr>method_name = ustr ''getBlockHeight'', method_params = [],
         method_sampleBody_params = Some (JArray []), method_category = Block,
         method_deprecated = deprecated_of sample_runtime getBlockHeight_block\<rparr> st)"
  using main_loop_body_emit [OF getBlockHeight_block_reads(1) getBlockHeight_block_reads(3) params_loop.simps(1)
      getBlockHeight_block_reads(4) request_getBlockHeight(1) getBlockHeight_block_parse get_params_sample, of st]
  by (simp add: sample_rt sample_categories write_console_Nil)

lemma body2_getBlockHeight:
  "main_loop_body2 sample_runtime st getBlockHeight_block =
     (case add_method2
        \<lparr>method2_name = ustr ''getBlockHeight'', method2_description = ustr ''Returns a value'',
         method2_params = [],
         method2_sampleBody_params = Some (JArray []), method2_sampleResponse = JObject [],
         method2_category = Block2,
         method2_deprecated = deprecated_of sample_runtime getBlockHeight_block\<rparr> st of
        None \<Rightarrow> Some (write_console2
                  [ConsoleLog [jsonString_of (sanitize (sample_request ''getBlockHeight'')), ustr ''{}'']] st)
      | Some st' \<Rightarrow> Some st')"
  using main_loop_body2_emit [OF getBlockHeight_block_reads(1) getBlockHeight_block_reads(2) getBlockHeight_block_reads(3) params_loop.simps(1)
      getBlockHeight_block_reads(5) request_getBlockHeight(1) ustr_braces(1) getBlockHeight_block_parse ustr_braces(2)
      get_params_sample, of st]
  by (simp add: sample_rt sample_categories write_console2_Nil split: option.splits)


lemma main_sample_document:
  "\<exists>st. main sample_runtime sample_document = Some st
     \<and> map method_name (methods st) = [ustr ''getBlock'', ustr ''getBalance'', ustr ''getBlockHeight'']
     \<and> map fst (categoryMap st) = [Block, Misc]"
  by (simp add: main_def sample_document_blocks body_getBlock body_getBalance body_getBlockHeight
      add_method_def)

lemma main2_sample_document:
  "\<exists>st. main2 sample_runtime sample_document = Some st
     \<and> map method2_name (methods2 st) = [ustr ''getBlock'', ustr ''getBalance'', ustr ''getBlockHeight'']
     \<and> map fst (categoryMap2 st) = [Block2, Miscellaneous2]
     \<and> categoryNameMap2 st = [(Block2, [ustr ''getBlock'', ustr ''getBlockHeight'']), (Miscellaneous2, [ustr ''getBalance''])]"
  by (simp add: main2_def sample_document_blocks body2_getBlock body2_getBalance body2_getBlockHeight
      add_method2_def)

lemma malformed_block_reads:
  "methodName_of malformed_sample_block = Some (ustr ''getFees'')"
  "methodDescription_of malformed_sample_block = Some (ustr ''Returns a value'')"
  "paramsSection_of malformed_sample_block = Some []"
  "sampleRequest_of malformed_sample_block = Some (sanitize malformed_sample)"
  "samples_of malformed_sample_block = Some (sanitize malformed_sample, ustr ''{}'')"
  by (simp_all add: malformed_sample_block_def methodName_of_def methodDescription_of_def
      paramsSection_of_def sampleRequest_of_def samples_of_def sample_dom_defs sanitize_def
      sanitize_class_def ustr_def)

lemma malformed_sample_candidate:
  "sanitize malformed_sample \<noteq> []"
  "jsonString_of (sanitize malformed_sample) = ustr ''{\"method\":oops}''"
  by (simp_all add: malformed_sample_def string_eval_defs)

lemma malformed_sample_parse:
  "JSON_parse sample_runtime (jsonString_of (sanitize malformed_sample)) = None"
  by (simp add: malformed_sample_candidate sample_rt) (simp add: sample_parse_def ustr_def Let_def)



lemma no_params_document_blocks:
  "getElementsByClassName ''DocBlock_boPv'' no_params_document = [no_params_block, getBlock_block]"
  by (simp add: no_params_document_def no_params_block_def getBlock_block_def sample_dom_defs)

lemma no_params_block_reads:
  "methodName_of no_params_block = Some (ustr ''getHealth'')"
  "paramsSection_of no_params_block = None"
  by (simp_all add: no_params_block_def methodName_of_def paramsSection_of_def sample_dom_defs
      sanitize_def sanitize_class_def ustr_def)

lemma flagless_document_blocks:
  "getElementsByClassName ''DocBlock_boPv'' flagless_document
   = [sample_block ''getBalance'' [flagless_param] (sample_request ''getBalance'')]"
  by (simp add: flagless_document_def flagless_param_def sample_dom_defs)

lemma flagless_block_reads:
  "methodName_of (sample_block ''getBalance'' [flagless_param] (sample_request ''getBalance''))
   = Some (ustr ''getBalance'')"
  "paramsSection_of (sample_block ''getBalance'' [flagless_param] (sample_request ''getBalance''))
   = Some [flagless_param]"
  by (simp_all add: flagless_param_def methodName_of_def paramsSection_of_def sample_dom_defs
      sanitize_def sanitize_class_def ustr_def)

lemma flagless_param_raises: "params_loop mn [flagless_param] [] [] = None"
  by (simp add: flagless_param_def sample_dom_defs try_fields_def trim_def is_whitespace_def
      sanitize_def sanitize_class_def ustr_def)

lemma object_param_fields:
  "getElementsByClassName ''Field_MIDZ'' object_param =
     [sample_field [sample_field_name ''a''] ''string'', sample_field [] ''u64'',
      sample_field [sample_field_name ''c''] ''bool'']"
  by (simp add: object_param_def sample_field_def sample_field_name_def sample_dom_defs)

lemma sample_field_reads:
  "read_field (sample_field [sample_field_name ''a''] ''string'') = Some (ustr ''a'', ustr ''string'', False)"
  "read_field (sample_field [] ''u64'') = None"
  "read_field (sample_field [sample_field_name ''c''] ''bool'') = Some (ustr ''c'', ustr ''bool'', False)"
  by (simp_all add: read_field_def sample_field_def sample_field_name_def sample_dom_defs
      sanitize_def sanitize_class_def ustr_def)

lemma object_param_try_fields:
  "try_fields mn (ustr ''object'') object_param =
     ([\<lparr>field_name = ustr ''a'', field_type = ustr ''string'', field_required = False\<rparr>],
      [ConsoleError [ustr ''Error parsing fields for method: '' @ mn]])"
  by (simp add: try_fields_def object_param_fields sample_field_reads) (simp add: ustr_def)

lemma object_param_header:
  "item0 (getElementsByClassName ''ParameterHeader_UUsJ'' object_param)
     = Some (sample_header ''object'' [sample_flag ''required''])"
  "item0 (getElementsByTagName ''code'' (sample_header ''object'' [sample_flag ''required'']))
     = Some (Element ''code'' [] [Text (ustr ''object'')])"
  "item0 (getElementsByClassName ''FlagItem_qZK_'' object_param) = Some (sample_flag ''required'')"
  "sanitize (trim (ustr ''object'')) = ustr ''object''"
  "ustr ''object'' \<noteq> []"
  "textContent (sample_flag ''required'') = ustr ''required''"
  by (simp_all add: object_param_def sample_field_def sample_field_name_def sample_dom_defs
      trim_def is_whitespace_def sanitize_def sanitize_class_def ustr_def)

lemma malformed_then_getBlock_blocks:
  "getElementsByClassName ''DocBlock_boPv'' malformed_then_getBlock_document
   = [malformed_sample_block, getBlock_block]"
  by (simp add: malformed_then_getBlock_document_def malformed_sample_block_def
      getBlock_block_def sample_dom_defs)



lemma add_method_fields:
  "methods (add_method m st) = methods st @ [m]"
  "console (add_method m st) = console st"
  "map_of (categoryMap st) (method_category m) = None \<Longrightarrow>
   categoryMap (add_method m st) = categoryMap st @ [(method_category m, [m])]"
  by (simp_all add: add_method_def)

lemma add_method2_new:
  "categoryMap2 st = [] \<Longrightarrow>
   add_method2 m st =
     Some (st\<lparr>categoryNameMap2 :=
                AList.update (method2_category m) [method2_name m] (categoryNameMap2 st),
              categoryMap2 := [(method2_category m, [m])],
              methods2 := methods2 st @ [m]\<rparr>)"
  by (simp add: add_method2_def)

section \<open>The claims\<close>

text \<open>
  C1. A page of two method blocks, the first with a heading and samples but no parameter
  section, the second well formed: the name of the first block is read, reading its
  parameter section throws, the turn of the loop on it ends with that TypeError in
  either variant, and so does the run, instead of logging, skipping the block and going
  on to the second.
\<close>

theorem C1_missing_params_section_raises:
  "getElementsByClassName ''DocBlock_boPv'' no_params_document = [no_params_block, getBlock_block]
   \<and> methodName_of no_params_block = Some (ustr ''getHealth'')
   \<and> paramsSection_of no_params_block = None
   \<and> main_loop_body rt st no_params_block = None
   \<and> main_loop_body2 rt st2 no_params_block = None
   \<and> main rt no_params_document = None
   \<and> main2 rt no_params_document = None"
  by (simp add: main_def main2_def no_params_document_blocks no_params_block_reads
      main_loop_body_no_params main_loop_body2_no_params)

text \<open>
  C2. Whenever a run of either variant ends, the sum of the lengths of the buckets of
  its category index is the length of its flat list of methods; the keys of the index
  are distinct; every method of the flat list is in the bucket at its own category; and
  the bucket at a key is exactly the methods of the flat list with that category, in
  order, so that no bucket holds a method that is not in the flat list or that has
  another category.
\<close>

theorem C2_aggregation_consistent:
  "(main rt document = Some st \<longrightarrow>
      sum_list (map (\<lambda>(c, bucket). length bucket) (categoryMap st)) = length (methods st)
      \<and> distinct (map fst (categoryMap st))
      \<and> (\<forall>m \<in> set (methods st).
            \<exists>bucket. (method_category m, bucket) \<in> set (categoryMap st) \<and> m \<in> set bucket)
      \<and> (\<forall>(c, bucket) \<in> set (categoryMap st).
            bucket = filter (\<lambda>m. method_category m = c) (methods st)))
   \<and> (main2 rt document = Some st2 \<longrightarrow>
      sum_list (map (\<lambda>(c, bucket). length bucket) (categoryMap2 st2)) = length (methods2 st2)
      \<and> distinct (map fst (categoryMap2 st2))
      \<and> (\<forall>m \<in> set (methods2 st2).
            \<exists>bucket. (method2_category m, bucket) \<in> set (categoryMap2 st2) \<and> m \<in> set bucket)
      \<and> (\<forall>(c, bucket) \<in> set (categoryMap2 st2).
            bucket = filter (\<lambda>m. method2_category m = c) (methods2 st2)))"
  using consistent_properties [OF main_consistent, of rt document st]
    consistent2_properties [OF main2_consistent, of rt document st2]
  by blast

theorem C2_aggregation_consistent_witness:
  "\<exists>st st2. main sample_runtime sample_document = Some st
     \<and> main2 sample_runtime sample_document = Some st2
     \<and> map method_name (methods st) = [ustr ''getBlock'', ustr ''getBalance'', ustr ''getBlockHeight'']
     \<and> map fst (categoryMap st) = [Block, Misc]
     \<and> sum_list (map (\<lambda>(c, bucket). length bucket) (categoryMap st)) = 3
     \<and> map method2_name (methods2 st2) = [ustr ''getBlock'', ustr ''getBalance'', ustr ''getBlockHeight'']
     \<and> map fst (categoryMap2 st2) = [Block2, Miscellaneous2]
     \<and> sum_list (map (\<lambda>(c, bucket). length bucket) (categoryMap2 st2)) = 3"
proof -
  from main_sample_document obtain st where
    h: "main sample_runtime sample_document = Some st
     \<and> map method_name (methods st) = [ustr ''getBlock'', ustr ''getBalance'', ustr ''getBlockHeight'']
     \<and> map fst (categoryMap st) = [Block, Misc]" ..
  from main2_sample_document obtain st2 where
    h2: "main2 sample_runtime sample_document = Some st2
     \<and> map method2_name (methods2 st2) = [ustr ''getBlock'', ustr ''getBalance'', ustr ''getBlockHeight'']
     \<and> map fst (categoryMap2 st2) = [Block2, Miscellaneous2]
     \<and> categoryNameMap2 st2 = [(Block2, [ustr ''getBlock'', ustr ''getBlockHeight'']), (Miscellaneous2, [ustr ''getBalance''])]" ..
  note r = conjunct1 [OF h] and n = conjunct1 [OF conjunct2 [OF h]]
    and k = conjunct2 [OF conjunct2 [OF h]]
  note r2 = conjunct1 [OF h2] and n2 = conjunct1 [OF conjunct2 [OF h2]]
    and k2 = conjunct1 [OF conjunct2 [OF conjunct2 [OF h2]]]
  from arg_cong [OF n, of length] have l: "length (methods st) = 3" by simp
  from arg_cong [OF n2, of length] have l2: "length (methods2 st2) = 3" by simp
  note c = C2_aggregation_consistent [of sample_runtime sample_document st st2]
  have "sum_list (map (\<lambda>(c, bucket). length bucket) (categoryMap st)) = length (methods st)"
    using conjunct1 [OF mp [OF conjunct1 [OF c] r]] .
  with l have s: "sum_list (map (\<lambda>(c, bucket). length bucket) (categoryMap st)) = 3"
    by (simp only:)
  have "sum_list (map (\<lambda>(c, bucket). length bucket) (categoryMap2 st2)) = length (methods2 st2)"
    using conjunct1 [OF mp [OF conjunct2 [OF c] r2]] .
  with l2 have s2: "sum_list (map (\<lambda>(c, bucket). length bucket) (categoryMap2 st2)) = 3"
    by (simp only:)
  from r r2 n k s n2 k2 s2 show ?thesis by (intro exI conjI)
qed

text \<open>
  C3. The classifier of each variant lower-cases the name and returns the category of
  the first rule, in the order of the source, whose keyword the lowered name contains,
  and the default category when there is none. Whenever lowering
  \<open>getTokenAccountsByOwner\<close> gives \<open>gettokenaccountsbyowner\<close>, the name is classified
  as Token in both variants: the rule for \<open>token\<close> stands before the rule for
  \<open>account\<close>.
\<close>

theorem C3_getCategory_first_matching_rule:
  "getCategory lc name = first_matching_rule category_rules Misc (lc name)
   \<and> getCategory2 lc name = first_matching_rule category_rules2 Miscellaneous2 (lc name)
   \<and> (lc (ustr ''getTokenAccountsByOwner'') = ustr ''gettokenaccountsbyowner'' \<longrightarrow>
        getCategory lc (ustr ''getTokenAccountsByOwner'') = Token
        \<and> getCategory2 lc (ustr ''getTokenAccountsByOwner'') = Token2)"
proof -
  have a: "getCategory lc name = first_matching_rule category_rules Misc (lc name)"
    by (simp add: getCategory_def category_rules_def first_matching_rule_def)
  have b: "getCategory2 lc name = first_matching_rule category_rules2 Miscellaneous2 (lc name)"
    by (simp add: getCategory2_def category_rules2_def first_matching_rule_def)
  have c: "getCategory lc (ustr ''getTokenAccountsByOwner'') = Token"
    if "lc (ustr ''getTokenAccountsByOwner'') = ustr ''gettokenaccountsbyowner''"
    using that by (simp add: getCategory_def) (simp add: ustr_def)
  have d: "getCategory2 lc (ustr ''getTokenAccountsByOwner'') = Token2"
    if "lc (ustr ''getTokenAccountsByOwner'') = ustr ''gettokenaccountsbyowner''"
    using that by (simp add: getCategory2_def) (simp add: ustr_def)
  from a b c d show ?thesis by blast
qed

theorem C3_getCategory_witness:
  "ascii_toLowerCase (ustr ''getTokenAccountsByOwner'') = ustr ''gettokenaccountsbyowner''
   \<and> getCategory ascii_toLowerCase (ustr ''getTokenAccountsByOwner'') = Token
   \<and> getCategory2 ascii_toLowerCase (ustr ''getTokenAccountsByOwner'') = Token2"
proof -
  have h: "ascii_toLowerCase (ustr ''getTokenAccountsByOwner'') = ustr ''gettokenaccountsbyowner''"
    by (simp add: ascii_toLowerCase_def ustr_def)
  from C3_getCategory_first_matching_rule
    [of ascii_toLowerCase "ustr ''getTokenAccountsByOwner''"] h
  show ?thesis by blast
qed

text \<open>
  C4. For every sample text, the candidate of the source is the text from the first
  opening brace up to, but excluding, the final character, trimmed and stripped of all
  white space (the empty text when there is no brace). When the candidate contains
  \<open>simulateTransaction\<close> it has at least four characters, and the string handed to the
  parser is the candidate with exactly the one character at offset length - 4 deleted;
  otherwise it is the candidate itself.
\<close>

theorem C4_jsonString_recovery:
  "jsonCandidate s = spec_candidate s
   \<and> jsonString_of s =
       (if str_includes (spec_candidate s) (ustr ''simulateTransaction'')
        then delete_at (length (spec_candidate s) - 4) (spec_candidate s)
        else spec_candidate s)
   \<and> (str_includes (spec_candidate s) (ustr ''simulateTransaction'') \<longrightarrow>
        4 \<le> length (spec_candidate s)
        \<and> length (jsonString_of s) + 1 = length (spec_candidate s))"
proof (cases "str_includes (spec_candidate s) (ustr ''simulateTransaction'')")
  case False
  then show ?thesis by (simp add: jsonString_of_def jsonCandidate_spec)
next
  case True
  from includes_length [OF True] have len: "19 \<le> length (spec_candidate s)"
    by (simp add: length_ustr)
  then have i: "0 \<le> int (length (spec_candidate s)) - 4" by simp
  have n: "nat (int (length (spec_candidate s)) - 4) = length (spec_candidate s) - 4"
    by simp
  have r: "jsonString_of s = delete_at (length (spec_candidate s) - 4) (spec_candidate s)"
    using True
    by (simp add: jsonString_of_def jsonCandidate_spec removeAt_list [OF i] n delete_at_def
        Let_def)
  have "length (delete_at (length (spec_candidate s) - 4) (spec_candidate s)) + 1
        = length (spec_candidate s)"
    using len by (simp add: delete_at_def)
  with r True len show ?thesis by (simp add: jsonCandidate_spec)
qed

theorem C4_jsonString_recovery_witness:
  "str_includes (spec_candidate sample_simulate) (ustr ''simulateTransaction'')
   \<and> 4 \<le> length (spec_candidate sample_simulate)
   \<and> jsonString_of sample_simulate =
       ustr ''{\"method\":\"simulateTransaction\",\"params\":[{\"encoding\":\"base64\"}]}''"
  using C4_jsonString_recovery [of sample_simulate]
  by (simp add: spec_candidate_def sample_simulate_def ustr_def trim_def
      replace_whitespace_def is_whitespace_def delete_at_def)

text \<open>
  C5. Take a method section whose name, parameter section and parameters are read
  without a throw, whose sample text is not empty, and whose recovered string the parser
  rejects. Then the turn of the loop returns: the flat list and the category index (and,
  in the second variant, the name index) are as they were before it, and the console has
  gained the diagnostics of the parameters followed by one line with the rejected
  string (in the second variant, with the rejected string and the response text). The
  run goes on from that state: the loop over this section alone returns it, the loop
  over this section and more sections is the loop over those from it, and whenever the
  turn on a next section returns from it, the loop over the two sections returns what
  that turn returns. The witness is a run of \<open>main\<close> on a page where a block with an
  unparsable sample is followed by a well-formed block, which is emitted.
\<close>

theorem C5_unparsable_sample_abandons_method:
  assumes "methodName_of sec = Some mn" and "paramsSection_of sec = Some ps"
    and "params_loop mn ps [] [] = Some (params, out)"
    and "s \<noteq> []" and "JSON_parse rt (jsonString_of s) = None"
  shows
    "(sampleRequest_of sec = Some s \<longrightarrow>
        (\<exists>st'. main_loop_body rt st sec = Some st'
           \<and> methods st' = methods st \<and> categoryMap st' = categoryMap st
           \<and> console st' = console st @ out @ [ConsoleLog [jsonString_of s]]
           \<and> main_loop rt [sec] st = Some st'
           \<and> main_loop rt (sec # rest) st = main_loop rt rest st'
           \<and> (\<forall>next st''. main_loop_body rt st' next = Some st''
                 \<longrightarrow> main_loop rt [sec, next] st = Some st'')))
     \<and> (methodDescription_of sec = Some d \<and> samples_of sec = Some (s, r) \<and> r \<noteq> [] \<longrightarrow>
        (\<exists>st'. main_loop_body2 rt st2 sec = Some st'
           \<and> methods2 st' = methods2 st2 \<and> categoryMap2 st' = categoryMap2 st2
           \<and> categoryNameMap2 st' = categoryNameMap2 st2
           \<and> console2 st' = console2 st2 @ out @ [ConsoleLog [jsonString_of s, r]]
           \<and> main_loop2 rt [sec] st2 = Some st'
           \<and> main_loop2 rt (sec # rest) st2 = main_loop2 rt rest st'
           \<and> (\<forall>next st''. main_loop_body2 rt st' next = Some st''
                 \<longrightarrow> main_loop2 rt [sec, next] st2 = Some st'')))"
proof (intro conjI impI)
  assume "sampleRequest_of sec = Some s"
  with assms have "main_loop_body rt st sec =
      Some (write_console (out @ [ConsoleLog [jsonString_of s]]) st)"
    by (simp add: main_loop_body_skip)
  then show "\<exists>st'. main_loop_body rt st sec = Some st'
           \<and> methods st' = methods st \<and> categoryMap st' = categoryMap st
           \<and> console st' = console st @ out @ [ConsoleLog [jsonString_of s]]
           \<and> main_loop rt [sec] st = Some st'
           \<and> main_loop rt (sec # rest) st = main_loop rt rest st'
           \<and> (\<forall>next st''. main_loop_body rt st' next = Some st''
                 \<longrightarrow> main_loop rt [sec, next] st = Some st'')"
    by (simp add: write_console_fields)
next
  assume "methodDescription_of sec = Some d \<and> samples_of sec = Some (s, r) \<and> r \<noteq> []"
  with assms have "main_loop_body2 rt st2 sec =
      Some (write_console2 (out @ [ConsoleLog [jsonString_of s, r]]) st2)"
    by (simp add: main_loop_body2_skip)
  then show "\<exists>st'. main_loop_body2 rt st2 sec = Some st'
           \<and> methods2 st' = methods2 st2 \<and> categoryMap2 st' = categoryMap2 st2
           \<and> categoryNameMap2 st' = categoryNameMap2 st2
           \<and> console2 st' = console2 st2 @ out @ [ConsoleLog [jsonString_of s, r]]
           \<and> main_loop2 rt [sec] st2 = Some st'
           \<and> main_loop2 rt (sec # rest) st2 = main_loop2 rt rest st'
           \<and> (\<forall>next st''. main_loop_body2 rt st' next = Some st''
                 \<longrightarrow> main_loop2 rt [sec, next] st2 = Some st'')"
    by (simp add: write_console2_fields)
qed

theorem C5_unparsable_sample_witness:
  "\<exists>st st2. main sample_runtime malformed_then_getBlock_document = Some st
     \<and> map method_name (methods st) = [ustr ''getBlock'']
     \<and> console st = [ConsoleLog [ustr ''{\"method\":oops}'']]
     \<and> main2 sample_runtime malformed_then_getBlock_document = Some st2
     \<and> map method2_name (methods2 st2) = [ustr ''getBlock'']
     \<and> console2 st2 = [ConsoleLog [ustr ''{\"method\":oops}'', ustr ''{}'']]"
proof -
  define st0 where "st0 = \<lparr>methods = [], categoryMap = [], console = []\<rparr>"
  define st20 where
    "st20 = \<lparr>methods2 = [], categoryMap2 = [], categoryNameMap2 = [], console2 = []\<rparr>"
  define m where "m =
     \<lparr>method_name = ustr ''getBlock'',
      method_params = [\<lparr>param_type = ustr ''u64'', param_required = True, param_fields = []\<rparr>],
      method_sampleBody_params = Some (JArray []), method_category = Block,
      method_deprecated = deprecated_of sample_runtime getBlock_block\<rparr>"
  define m2 where "m2 =
     \<lparr>method2_name = ustr ''getBlock'', method2_description = ustr ''Returns a value'',
      method2_params = [\<lparr>param_type = ustr ''u64'', param_required = True, param_fields = []\<rparr>],
      method2_sampleBody_params = Some (JArray []), method2_sampleResponse = JObject [],
      method2_category = Block2,
      method2_deprecated = deprecated_of sample_runtime getBlock_block\<rparr>"
  note c = C5_unparsable_sample_abandons_method
    [OF malformed_block_reads(1) malformed_block_reads(3) params_loop.simps(1)
      malformed_sample_candidate(1) malformed_sample_parse,
     where st = st0 and rest = "[]" and d = "ustr ''Returns a value''" and r = "ustr ''{}''"
       and ?st2.0 = st20]
  from mp [OF conjunct1 [OF c] malformed_block_reads(4)]
  obtain st' where h:
    "main_loop_body sample_runtime st0 malformed_sample_block = Some st'
     \<and> methods st' = methods st0 \<and> categoryMap st' = categoryMap st0
     \<and> console st' = console st0 @ [] @ [ConsoleLog [jsonString_of (sanitize malformed_sample)]]
     \<and> main_loop sample_runtime [malformed_sample_block] st0 = Some st'
     \<and> main_loop sample_runtime [malformed_sample_block] st0 = main_loop sample_runtime [] st'
     \<and> (\<forall>next st''. main_loop_body sample_runtime st' next = Some st''
           \<longrightarrow> main_loop sample_runtime [malformed_sample_block, next] st0 = Some st'')" ..
  from h have hm: "methods st' = []"
    and hc: "console st' = [ConsoleLog [ustr ''{\"method\":oops}'']]"
    and hn: "\<forall>next st''. main_loop_body sample_runtime st' next = Some st''
           \<longrightarrow> main_loop sample_runtime [malformed_sample_block, next] st0 = Some st''"
    by (simp_all add: st0_def malformed_sample_candidate)
  have "main_loop_body sample_runtime st' getBlock_block = Some (add_method m st')"
    unfolding m_def by (rule body_getBlock)
  with hn have "main_loop sample_runtime [malformed_sample_block, getBlock_block] st0
                = Some (add_method m st')"
    by (elim allE impE)
  then have r: "main sample_runtime malformed_then_getBlock_document = Some (add_method m st')"
    by (simp add: main_def malformed_then_getBlock_blocks st0_def)
  have n: "map method_name (methods (add_method m st')) = [ustr ''getBlock'']"
    by (simp add: add_method_fields hm m_def)
  have k: "console (add_method m st') = [ConsoleLog [ustr ''{\"method\":oops}'']]"
    by (simp add: add_method_fields hc)
  have "methodDescription_of malformed_sample_block = Some (ustr ''Returns a value'')
        \<and> samples_of malformed_sample_block = Some (sanitize malformed_sample, ustr ''{}'')
        \<and> ustr ''{}'' \<noteq> []"
    by (simp add: malformed_block_reads ustr_braces)
  from mp [OF conjunct2 [OF c] this]
  obtain st2' where h2:
    "main_loop_body2 sample_runtime st20 malformed_sample_block = Some st2'
     \<and> methods2 st2' = methods2 st20 \<and> categoryMap2 st2' = categoryMap2 st20
     \<and> categoryNameMap2 st2' = categoryNameMap2 st20
     \<and> console2 st2' = console2 st20 @ [] @
          [ConsoleLog [jsonString_of (sanitize malformed_sample), ustr ''{}'']]
     \<and> main_loop2 sample_runtime [malformed_sample_block] st20 = Some st2'
     \<and> main_loop2 sample_runtime [malformed_sample_block] st20
         = main_loop2 sample_runtime [] st2'
     \<and> (\<forall>next st''. main_loop_body2 sample_runtime st2' next = Some st''
           \<longrightarrow> main_loop2 sample_runtime [malformed_sample_block, next] st20 = Some st'')" ..
  from h2 have hm2: "methods2 st2' = []" and hk2: "categoryMap2 st2' = []"
    and hc2: "console2 st2' = [ConsoleLog [ustr ''{\"method\":oops}'', ustr ''{}'']]"
    and hn2: "\<forall>next st''. main_loop_body2 sample_runtime st2' next = Some st''
           \<longrightarrow> main_loop2 sample_runtime [malformed_sample_block, next] st20 = Some st''"
    by (simp_all add: st20_def malformed_sample_candidate)
  define st2'' where "st2'' =
     st2'\<lparr>categoryNameMap2 :=
            AList.update (method2_category m2) [method2_name m2] (categoryNameMap2 st2'),
          categoryMap2 := [(method2_category m2, [m2])],
          methods2 := methods2 st2' @ [m2]\<rparr>"
  have "main_loop_body2 sample_runtime st2' getBlock_block = Some st2''"
    by (simp add: body2_getBlock add_method2_new [OF hk2] m2_def [symmetric] st2''_def)
  with hn2 have "main_loop2 sample_runtime [malformed_sample_block, getBlock_block] st20
                = Some st2''"
    by (elim allE impE)
  then have r2: "main2 sample_runtime malformed_then_getBlock_document = Some st2''"
    by (simp add: main2_def malformed_then_getBlock_blocks st20_def)
  have n2: "map method2_name (methods2 st2'') = [ustr ''getBlock'']"
    by (simp add: st2''_def hm2 m2_def)
  have k2: "console2 st2'' = [ConsoleLog [ustr ''{\"method\":oops}'', ustr ''{}'']]"
    by (simp add: st2''_def hc2)
  from r n k r2 n2 k2 show ?thesis by (intro exI conjI)
qed

text \<open>
  C6. The sanitizer at the text \<open>a-b\<close>: the hyphen, which is neither a control character
  nor a zero-width space, is removed with them.
\<close>

theorem C6_sanitize_removes_hyphen:
  "sanitize (ustr ''a-b'') = ustr ''ab''"
  by (simp add: sanitize_def sanitize_class_def ustr_def)

text \<open>
  C7. A parameter with a type and no flag element: reading the flag throws, so the loop
  over the parameters, and with it the run of either variant on a page with such a
  parameter, ends with a TypeError instead of a parameter that is not required.
\<close>

theorem C7_missing_flag_raises:
  "params_loop mn [flagless_param] [] [] = None
   \<and> main rt flagless_document = None \<and> main2 rt flagless_document = None"
proof (intro conjI)
  show "params_loop mn [flagless_param] [] [] = None" by (rule flagless_param_raises)
  show "main rt flagless_document = None"
    by (simp add: main_def flagless_document_blocks
        main_loop_body_params_raise
          [OF flagless_block_reads(2) flagless_block_reads(1) flagless_param_raises])
  show "main2 rt flagless_document = None"
    by (simp add: main2_def flagless_document_blocks
        main_loop_body2_params_raise
          [OF flagless_block_reads(2) flagless_block_reads(1) flagless_param_raises])
qed

text \<open>
  C8. An object parameter with the fields \<open>a\<close>, \<open>b\<close> and \<open>c\<close>, in this order, where
  \<open>b\<close> has no name element while \<open>a\<close> and \<open>c\<close> are well formed: the parameter is
  emitted with the field \<open>a\<close> only. The TypeError of \<open>b\<close> ends the loop over the
  fields, and the sibling \<open>c\<close> after it is never read.
\<close>

theorem C8_missing_field_name_drops_siblings:
  "map read_field (getElementsByClassName ''Field_MIDZ'' object_param)
   = [Some (ustr ''a'', ustr ''string'', False), None, Some (ustr ''c'', ustr ''bool'', False)]
   \<and> params_loop mn [object_param] [] [] =
     Some ([\<lparr>param_type = ustr ''object'', param_required = True,
             param_fields =
               [\<lparr>field_name = ustr ''a'', field_type = ustr ''string'',
                 field_required = False\<rparr>]\<rparr>],
           [ConsoleError [ustr ''Error parsing fields for method: '' @ mn]])"
proof (intro conjI)
  show "map read_field (getElementsByClassName ''Field_MIDZ'' object_param)
   = [Some (ustr ''a'', ustr ''string'', False), None, Some (ustr ''c'', ustr ''bool'', False)]"
    by (simp add: object_param_fields sample_field_reads)
  show "params_loop mn [object_param] [] [] =
     Some ([\<lparr>param_type = ustr ''object'', param_required = True,
             param_fields =
               [\<lparr>field_name = ustr ''a'', field_type = ustr ''string'',
                 field_required = False\<rparr>]\<rparr>],
           [ConsoleError [ustr ''Error parsing fields for method: '' @ mn]])"
    by (simp add: object_param_header object_param_try_fields del: textContent.simps)
       (simp add: object_param_header object_param_try_fields)
qed

text \<open>
  C9. Sanitizing a sanitized text changes nothing.
\<close>

theorem C9_sanitize_idempotent:
  "sanitize (sanitize s) = sanitize s"
  by (simp add: sanitize_def)




end
